theory Spec2Isabelle
  imports Main "HOL-Library.Word" "HOL-Library.Sublist"
begin

unbundle bit_operations_syntax

section \<open>The argument-based file system of dxcompiler (dxcfilesystem.cpp)\<close>

text \<open>
  The development embeds \<^verbatim>\<open>tools/clang/tools/dxcompiler/dxcfilesystem.cpp\<close>:
  the handle codec (\<^verbatim>\<open>HandleBits\<close>, \<^verbatim>\<open>DxcArgsHandle\<close>), the path
  normaliser, the included-file registry, the directory emulation and the file API
  of \<^verbatim>\<open>DxcArgsFileSystemImpl\<close>.

  Conventions of the embedding.
  \<^item> A wide C string (\<^verbatim>\<open>LPCWSTR\<close>, \<^verbatim>\<open>std::wstring\<close>) is the list of its code
    units before the terminating NUL; a code unit is a \<open>char\<close>. The source only
    compares code units for equality. \<^verbatim>\<open>wcscmp(a, b) == 0\<close> is \<open>a = b\<close> and
    \<^verbatim>\<open>wcsncmp(a, b, n) == 0\<close> is \<open>take n a = take n b\<close>. Null string pointers
    are not modelled.
  \<^item> A call that does not return normally (a failed \<^verbatim>\<open>DXASSERT\<close>, an exception
    that leaves a \<^verbatim>\<open>throw()\<close> function, a read through a null pointer or
    outside a buffer) has the value \<open>None\<close>.
  \<^item> \<^verbatim>\<open>SetLastError(e); return FALSE\<close> (or another failure value) is the
    result \<open>Inl e\<close>; a successful return of \<open>v\<close> is \<open>Inr v\<close>.
\<close>

subsection \<open>Handles\<close>

datatype HandleKind = Special | File | FileDir | SearchDir

datatype SpecialValue = Unknown | StdOut | StdErr | Source | Output

text \<open>The enumerators' values, as the enum declarations give them.\<close>

fun HandleKind_value :: "HandleKind \<Rightarrow> nat" where
  "HandleKind_value Special = 0"
| "HandleKind_value File = 1"
| "HandleKind_value FileDir = 2"
| "HandleKind_value SearchDir = 3"

fun SpecialValue_value :: "SpecialValue \<Rightarrow> nat" where
  "SpecialValue_value Unknown = 0"
| "SpecialValue_value StdOut = 1"
| "SpecialValue_value StdErr = 2"
| "SpecialValue_value Source = 3"
| "SpecialValue_value Output = 4"

text \<open>
  \<^verbatim>\<open>struct HandleBits { unsigned Offset : 8; unsigned Length : 8; unsigned Kind : 4; }\<close>.
  Storing an \<^verbatim>\<open>unsigned\<close> into a bit-field of width \<open>w\<close> keeps its value modulo
  \<open>2 ^ w\<close>, which is what \<open>of_nat\<close> into a \<open>w word\<close> does.
\<close>

record HandleBits =
  Offset :: "8 word"
  Length :: "8 word"
  Kind :: "4 word"

text \<open>
  \<^verbatim>\<open>HANDLE\<close> is pointer sized (64 bits here), and \<^verbatim>\<open>DxcArgsHandle\<close> is the union
  of a \<^verbatim>\<open>HANDLE\<close> and a \<^verbatim>\<open>HandleBits\<close>, with the bit-fields allocated from
  the least significant bit (the layout of the compilers the source is built with).
  The constructors that take a kind, an index or a special value initialise the
  member \<^verbatim>\<open>Bits\<close> only: they write the 20 bits of the three bit-fields and
  leave every other bit of the union as the storage held it before. \<open>prior\<close> is
  that earlier content of the storage. \<open>Handle_of_Bits prior b\<close> is the member
  \<^verbatim>\<open>Handle\<close> read after such a constructor ran, and \<open>Bits_of_Handle\<close> reads the
  member \<^verbatim>\<open>Bits\<close> of a union that holds a \<^verbatim>\<open>HANDLE\<close>.
\<close>

type_synonym HANDLE = "64 word"

definition Handle_of_Bits :: "HANDLE \<Rightarrow> HandleBits \<Rightarrow> HANDLE" where
  "Handle_of_Bits prior b =
     (prior AND NOT (mask 20)) OR
     (ucast (Offset b) OR push_bit 8 (ucast (Length b)) OR push_bit 16 (ucast (Kind b)))"

definition Bits_of_Handle :: "HANDLE \<Rightarrow> HandleBits" where
  "Bits_of_Handle h =
     \<lparr>Offset = ucast h, Length = ucast (drop_bit 8 h), Kind = ucast (drop_bit 16 h)\<rparr>"

text \<open>
  The three bit-initialising constructors of \<^verbatim>\<open>DxcArgsHandle\<close>, in the order
  (kind, index, length), (index) and (special value). Their \<^verbatim>\<open>size_t\<close> and
  \<^verbatim>\<open>unsigned\<close> arguments end in the bit-fields, so only their value modulo the
  field's range matters. The first argument is the earlier content of the storage
  the object is constructed in.
\<close>

definition DxcArgsHandle :: "HANDLE \<Rightarrow> HandleKind \<Rightarrow> nat \<Rightarrow> nat \<Rightarrow> HANDLE" where
  "DxcArgsHandle prior HK fileIndex dirLength =
     Handle_of_Bits prior \<lparr>Offset = of_nat fileIndex, Length = of_nat dirLength,
                     Kind = of_nat (HandleKind_value HK)\<rparr>"

definition DxcArgsHandle_file :: "HANDLE \<Rightarrow> nat \<Rightarrow> HANDLE" where
  "DxcArgsHandle_file prior fileIndex =
     Handle_of_Bits prior \<lparr>Offset = of_nat fileIndex, Length = 0,
                     Kind = of_nat (HandleKind_value File)\<rparr>"

definition DxcArgsHandle_special :: "HANDLE \<Rightarrow> SpecialValue \<Rightarrow> HANDLE" where
  "DxcArgsHandle_special prior V =
     Handle_of_Bits prior \<lparr>Offset = of_nat (SpecialValue_value V), Length = 0,
                     Kind = of_nat (HandleKind_value Special)\<rparr>"

definition GetKind :: "HANDLE \<Rightarrow> nat" where
  "GetKind h = unat (Kind (Bits_of_Handle h))"

definition IsFileKind :: "HANDLE \<Rightarrow> bool" where
  "IsFileKind h = (GetKind h = HandleKind_value File)"

definition IsSpecialUnknown :: "HANDLE \<Rightarrow> bool" where
  "IsSpecialUnknown h = (h = 0)"

definition IsDirHandle :: "HANDLE \<Rightarrow> bool" where
  "IsDirHandle h =
     (GetKind h = HandleKind_value FileDir \<or> GetKind h = HandleKind_value SearchDir)"

text \<open>
  \<^verbatim>\<open>GetFileIndex\<close> and \<^verbatim>\<open>GetSpecialValue\<close> assert the kind and read the
  \<^verbatim>\<open>Offset\<close> field.
\<close>

definition GetFileIndex :: "HANDLE \<Rightarrow> nat option" where
  "GetFileIndex h =
     (if IsFileKind h then Some (unat (Offset (Bits_of_Handle h))) else None)"

definition GetSpecialValue :: "HANDLE \<Rightarrow> nat option" where
  "GetSpecialValue h =
     (if GetKind h = HandleKind_value Special
      then Some (unat (Offset (Bits_of_Handle h))) else None)"

definition IsStdHandle :: "HANDLE \<Rightarrow> bool" where
  "IsStdHandle h =
     (GetKind h = HandleKind_value Special \<and>
      (GetSpecialValue h = Some (SpecialValue_value StdErr) \<or>
       GetSpecialValue h = Some (SpecialValue_value StdOut)))"

text \<open>The member function \<^verbatim>\<open>Length()\<close>.\<close>

definition Length_of :: "HANDLE \<Rightarrow> nat" where
  "Length_of h = unat (Length (Bits_of_Handle h))"

text \<open>
  The four constants are objects of static storage duration: their storage is
  zero-initialised before the constructor runs.
\<close>

definition UnknownHandle :: HANDLE where
  "UnknownHandle = DxcArgsHandle_special 0 Unknown"

definition StdOutHandle :: HANDLE where
  "StdOutHandle = DxcArgsHandle_special 0 StdOut"

definition StdErrHandle :: HANDLE where
  "StdErrHandle = DxcArgsHandle_special 0 StdErr"

definition OutputHandle :: HANDLE where
  "OutputHandle = DxcArgsHandle_special 0 Output"

definition INVALID_HANDLE_VALUE :: HANDLE where
  "INVALID_HANDLE_VALUE = - 1"

definition MaxIncludedFiles :: nat where
  "MaxIncludedFiles = 1000"

subsection \<open>Path normalisation\<close>

type_synonym wstring = string

definition NUL :: char where
  "NUL = CHR 0x00"

definition backslash :: char where
  "backslash = CHR 0x5C"

text \<open>\<open>wch Path i\<close> is \<^verbatim>\<open>Path[i]\<close>: past the last code unit stands the terminator.\<close>

definition wch :: "wstring \<Rightarrow> nat \<Rightarrow> char" where
  "wch Path i = (if i < length Path then Path ! i else NUL)"

definition IsAbsoluteOrCurDirRelativeW :: "wstring \<Rightarrow> bool" where
  "IsAbsoluteOrCurDirRelativeW Path =
     (if wch Path 0 = NUL then False
      else if wch Path 0 = CHR ''.''
        then (wch Path 1 = NUL \<or> wch Path 1 = CHR ''/'' \<or> wch Path 1 = backslash)
      else if wch Path 1 = CHR '':'' \<and> wch Path 2 = backslash then True
      else if wch Path 0 = backslash then wch Path 1 = backslash
      else False)"

definition MakeAbsoluteOrCurDirRelativeW :: "wstring \<Rightarrow> wstring" where
  "MakeAbsoluteOrCurDirRelativeW Path =
     (if IsAbsoluteOrCurDirRelativeW Path then Path else ''./'' @ Path)"

subsection \<open>The collaborators outside the file\<close>

text \<open>
  The Win32 error codes the file passes to \<^verbatim>\<open>SetLastError\<close> or returns;
  \<^verbatim>\<open>ERROR_SUCCESS\<close> is the \<open>Inr\<close> side of a result.
\<close>

datatype win32_error =
  ERROR_OUT_OF_STRUCTURES | ERROR_UNHANDLED_EXCEPTION | ERROR_NOT_FOUND |
  ERROR_NOT_CAPABLE | ERROR_INVALID_HANDLE | ERROR_IO_DEVICE

type_synonym blob = "8 word list"

text \<open>
  What \<^verbatim>\<open>IDxcIncludeHandler::LoadSource\<close> hands back: a failed \<^verbatim>\<open>HRESULT\<close>,
  success with a null blob, or success with a blob.
\<close>

datatype load_result = LoadFailed | LoadNull | LoadBlob blob

text \<open>
  Functions and objects the file calls but does not define are parameters of the
  model, collected in one record. \<open>'l\<close> is the state of the include handler (the
  handler is an object of the caller's, so a call may change it) and \<open>'x\<close> the state
  of a stream object (\<^verbatim>\<open>IStream\<close>, \<^verbatim>\<open>AbstractMemoryStream\<close>). A function
  that reports failure or throws returns \<open>None\<close>.
\<close>

record ('l, 'x) collaborators =
  LoadSource :: "'l \<Rightarrow> wstring \<Rightarrow> load_result \<times> 'l"
  DxcGetBlobAsUtf8 :: "blob \<Rightarrow> blob option"
  CreateReadOnlyBlobStream :: "blob \<Rightarrow> 'x option"
  StreamWrite :: "'x \<Rightarrow> string \<Rightarrow> 'x option"
  StreamStat :: "'x \<Rightarrow> 32 word option"
  UTF16ToUTF8StringOrThrow :: "wstring \<Rightarrow> string option"
  UTF8ToUTF16StringOrThrow :: "string \<Rightarrow> wstring option"
  IsAbsoluteOrCurDirRelative :: "string \<Rightarrow> bool"

subsection \<open>The state of \<^verbatim>\<open>DxcArgsFileSystemImpl\<close>\<close>

record 'x IncludedFile =
  Blob :: blob
  BlobStream :: 'x
  Name :: wstring

text \<open>
  The members of the class. \<^verbatim>\<open>m_pSourceName\<close> is the name after the constructor
  made it absolute or current-directory relative (\<^verbatim>\<open>m_pAbsSourceName\<close> is only
  its storage), and likewise \<^verbatim>\<open>m_pOutputStreamName\<close>. A null pointer member is
  \<open>None\<close>.
\<close>

record ('l, 'x) DxcArgsFileSystemImpl =
  m_pSource :: blob
  m_pSourceName :: wstring
  m_pSourceStream :: 'x
  m_pOutputStream :: "'x option"
  m_pStdOutStream :: "'x option"
  m_pStdErrStream :: "'x option"
  m_pOutputStreamName :: "wstring option"
  m_includeLoader :: "'l option"
  m_searchEntries :: "wstring list"
  m_bDisplayIncludeProcess :: bool
  m_includedFiles :: "'x IncludedFile list"

subsection \<open>Directory emulation\<close>

definition is_separator :: "char \<Rightarrow> bool" where
  "is_separator c = (c = backslash \<or> c = CHR ''/'')"

text \<open>
  \<^verbatim>\<open>IsDirOf\<close>. With \<open>dirLen = 0\<close> and a non-empty file name the source reads
  \<^verbatim>\<open>lpDir[dirLen - 1]\<close> in front of the buffer: \<open>None\<close>.
\<close>

definition IsDirOf :: "wstring \<Rightarrow> nat \<Rightarrow> wstring \<Rightarrow> bool option" where
  "IsDirOf lpDir dirLen fileName =
     (if length fileName \<le> dirLen then Some False
      else if take dirLen lpDir \<noteq> take dirLen fileName then Some False
      else if dirLen = 0 then None
      else if is_separator (wch lpDir (dirLen - 1)) then Some True
      else Some (is_separator (wch fileName dirLen)))"

definition IsDirPrefixOrSame :: "wstring \<Rightarrow> nat \<Rightarrow> wstring \<Rightarrow> bool option" where
  "IsDirPrefixOrSame lpDir dirLen path =
     (if lpDir = path then Some True else IsDirOf lpDir dirLen path)"

text \<open>
  The two loops of \<^verbatim>\<open>TryFindDirHandle\<close>, each from index \<open>i\<close> on: the index of
  the first match (\<open>Some (Some i)\<close>), or no match (\<open>Some None\<close>). The handle
  returned for a match is the member \<^verbatim>\<open>Handle\<close> of a temporary
  \<^verbatim>\<open>DxcArgsHandle\<close>; \<open>prior\<close> is what the storage of that temporary held.
\<close>

fun scan_file_dirs :: "wstring \<Rightarrow> nat \<Rightarrow> 'x IncludedFile list \<Rightarrow> nat \<Rightarrow> nat option option" where
  "scan_file_dirs lpDir dirLen [] i = Some None"
| "scan_file_dirs lpDir dirLen (f # fs) i =
     (case IsDirOf lpDir dirLen (Name f) of
        None \<Rightarrow> None
      | Some True \<Rightarrow> Some (Some i)
      | Some False \<Rightarrow> scan_file_dirs lpDir dirLen fs (Suc i))"

fun scan_search_dirs :: "wstring \<Rightarrow> nat \<Rightarrow> wstring list \<Rightarrow> nat \<Rightarrow> nat option option" where
  "scan_search_dirs lpDir dirLen [] i = Some None"
| "scan_search_dirs lpDir dirLen (e # es) i =
     (case IsDirPrefixOrSame lpDir dirLen e of
        None \<Rightarrow> None
      | Some True \<Rightarrow> Some (Some i)
      | Some False \<Rightarrow> scan_search_dirs lpDir dirLen es (Suc i))"

definition TryFindDirHandle ::
  "HANDLE \<Rightarrow> wstring \<Rightarrow> ('l, 'x) DxcArgsFileSystemImpl \<Rightarrow> HANDLE option" where
  "TryFindDirHandle prior lpDir s =
     (let dirLen = length lpDir in
      case scan_file_dirs lpDir dirLen (m_includedFiles s) 0 of
        None \<Rightarrow> None
      | Some (Some i) \<Rightarrow> Some (DxcArgsHandle prior FileDir i dirLen)
      | Some None \<Rightarrow>
          (case scan_search_dirs lpDir dirLen (m_searchEntries s) 0 of
             None \<Rightarrow> None
           | Some (Some i) \<Rightarrow> Some (DxcArgsHandle prior SearchDir i dirLen)
           | Some None \<Rightarrow> Some INVALID_HANDLE_VALUE))"

subsection \<open>The included-file registry\<close>

text \<open>The first loop of \<^verbatim>\<open>TryFindOrOpen\<close>: the first entry with this very name.\<close>

fun scan_included :: "wstring \<Rightarrow> 'x IncludedFile list \<Rightarrow> nat \<Rightarrow> nat option" where
  "scan_included lpFileName [] i = None"
| "scan_included lpFileName (f # fs) i =
     (if lpFileName = Name f then Some i else scan_included lpFileName fs (Suc i))"

text \<open>Decimal digits, as \<^verbatim>\<open>raw_ostream\<close> prints an unsigned number.\<close>

fun decimal :: "nat \<Rightarrow> string" where
  "decimal n =
     (if n < 10 then [char_of (48 + n)]
      else decimal (n div 10) @ [char_of (48 + n mod 10)])"

declare decimal.simps [simp del]

text \<open>
  The line written when include tracing is on. \<^verbatim>\<open>index - 1\<close> is computed in
  \<^verbatim>\<open>size_t\<close>.
\<close>

definition opening_file_line :: "string \<Rightarrow> nat \<Rightarrow> string" where
  "opening_file_line fileName index =
     ''Opening file ['' @ fileName @ ''], stack top ['' @
       decimal ((index + 2 ^ 64 - 1) mod 2 ^ 64) @ '']'' @ [CHR 0x0A]"

text \<open>
  \<^verbatim>\<open>TryFindOrOpen\<close>: \<open>Inr index\<close> is \<^verbatim>\<open>ERROR_SUCCESS\<close> with the index stored.
  The new entry is appended before the trace line is written, and the trace can
  throw (the conversion, a null or failing standard-error stream).
\<close>

definition TryFindOrOpen ::
  "('l, 'x) collaborators \<Rightarrow> wstring \<Rightarrow> ('l, 'x) DxcArgsFileSystemImpl \<Rightarrow>
     ((win32_error + nat) \<times> ('l, 'x) DxcArgsFileSystemImpl) option" where
  "TryFindOrOpen E lpFileName s =
     (case scan_included lpFileName (m_includedFiles s) 0 of
        Some i \<Rightarrow> Some (Inr i, s)
      | None \<Rightarrow>
          (case m_includeLoader s of
             None \<Rightarrow> Some (Inl ERROR_NOT_FOUND, s)
           | Some l \<Rightarrow>
               if length (m_includedFiles s) = MaxIncludedFiles
               then Some (Inl ERROR_OUT_OF_STRUCTURES, s)
               else
                 (case LoadSource E l lpFileName of
                    (LoadFailed, l') \<Rightarrow>
                      Some (Inl ERROR_UNHANDLED_EXCEPTION, s\<lparr>m_includeLoader := Some l'\<rparr>)
                  | (LoadNull, l') \<Rightarrow>
                      Some (Inl ERROR_NOT_FOUND, s\<lparr>m_includeLoader := Some l'\<rparr>)
                  | (LoadBlob fileBlob, l') \<Rightarrow>
                      (case DxcGetBlobAsUtf8 E fileBlob of
                         None \<Rightarrow>
                           Some (Inl ERROR_UNHANDLED_EXCEPTION, s\<lparr>m_includeLoader := Some l'\<rparr>)
                       | Some fileBlobEncoded \<Rightarrow>
                           (case CreateReadOnlyBlobStream E fileBlobEncoded of
                              None \<Rightarrow>
                                Some (Inl ERROR_UNHANDLED_EXCEPTION,
                                      s\<lparr>m_includeLoader := Some l'\<rparr>)
                            | Some fileStream \<Rightarrow>
                                (let files = m_includedFiles s @
                                       [\<lparr>Blob = fileBlobEncoded, BlobStream = fileStream,
                                         Name = lpFileName\<rparr>];
                                     index = length files - 1;
                                     s' = s\<lparr>m_includeLoader := Some l',
                                            m_includedFiles := files\<rparr>
                                 in if m_bDisplayIncludeProcess s then
                                      (case UTF16ToUTF8StringOrThrow E lpFileName of
                                         None \<Rightarrow> None
                                       | Some fileName \<Rightarrow>
                                           (case m_pStdErrStream s of
                                              None \<Rightarrow> None
                                            | Some err \<Rightarrow>
                                                (case StreamWrite E err
                                                        (opening_file_line fileName index) of
                                                   None \<Rightarrow> None
                                                 | Some err' \<Rightarrow>
                                                     Some (Inr index,
                                                           s'\<lparr>m_pStdErrStream := Some err'\<rparr>))))
                                    else Some (Inr index, s')))))))"

definition IncludedFileIndexToHandle :: "HANDLE \<Rightarrow> nat \<Rightarrow> HANDLE" where
  "IncludedFileIndexToHandle prior index = DxcArgsHandle_file prior index"

definition IsKnownHandle :: "HANDLE \<Rightarrow> bool" where
  "IsKnownHandle h = (\<not> IsSpecialUnknown h)"

text \<open>
  \<^verbatim>\<open>HandleToIncludedFile\<close>: both assertions (file kind, index in range) are
  checked.
\<close>

definition HandleToIncludedFile ::
  "HANDLE \<Rightarrow> ('l, 'x) DxcArgsFileSystemImpl \<Rightarrow> 'x IncludedFile option" where
  "HandleToIncludedFile h s =
     (case GetFileIndex h of
        None \<Rightarrow> None
      | Some i \<Rightarrow> if i < length (m_includedFiles s) then Some (m_includedFiles s ! i) else None)"

subsection \<open>Construction and set-up\<close>

text \<open>
  The constructor (reached through \<^verbatim>\<open>CreateDxcArgsFileSystem\<close>). \<^verbatim>\<open>IFT\<close>
  throws when the stream cannot be created. The primary source becomes entry 0 of
  \<^verbatim>\<open>m_includedFiles\<close>.
\<close>

definition CreateDxcArgsFileSystem ::
  "('l, 'x) collaborators \<Rightarrow> blob \<Rightarrow> wstring \<Rightarrow> 'l option \<Rightarrow>
     ('l, 'x) DxcArgsFileSystemImpl option" where
  "CreateDxcArgsFileSystem E pSource pSourceName pHandler =
     (let sourceName = MakeAbsoluteOrCurDirRelativeW pSourceName in
      case CreateReadOnlyBlobStream E pSource of
        None \<Rightarrow> None
      | Some sourceStream \<Rightarrow>
          Some \<lparr>m_pSource = pSource, m_pSourceName = sourceName,
                m_pSourceStream = sourceStream, m_pOutputStream = None,
                m_pStdOutStream = None, m_pStdErrStream = None,
                m_pOutputStreamName = None, m_includeLoader = pHandler,
                m_searchEntries = [], m_bDisplayIncludeProcess = False,
                m_includedFiles =
                  [\<lparr>Blob = pSource, BlobStream = sourceStream, Name = sourceName\<rparr>]\<rparr>)"

definition EnableDisplayIncludeProcess ::
  "('l, 'x) DxcArgsFileSystemImpl \<Rightarrow> ('l, 'x) DxcArgsFileSystemImpl" where
  "EnableDisplayIncludeProcess s = s\<lparr>m_bDisplayIncludeProcess := True\<rparr>"

datatype HRESULT = S_OK | E_OUTOFMEMORY

text \<open>
  \<^verbatim>\<open>CreateStdStreams\<close>; \<open>out\<close> and \<open>err\<close> are what the two calls of
  \<^verbatim>\<open>CreateMemoryStream\<close> produce (null on failure).
\<close>

definition CreateStdStreams ::
  "'x option \<Rightarrow> 'x option \<Rightarrow> ('l, 'x) DxcArgsFileSystemImpl \<Rightarrow>
     (HRESULT \<times> ('l, 'x) DxcArgsFileSystemImpl) option" where
  "CreateStdStreams out err s =
     (if m_pStdOutStream s \<noteq> None then None
      else
        (let s' = s\<lparr>m_pStdOutStream := out, m_pStdErrStream := err\<rparr>
         in if out = None \<or> err = None then Some (E_OUTOFMEMORY, s') else Some (S_OK, s')))"

text \<open>
  The loop of \<^verbatim>\<open>SetupForCompilerInstance\<close> over the user entries' paths. A
  conversion that throws leaves the entries appended so far: the flag says whether
  the loop ran to its end.
\<close>

fun append_search_entries ::
  "('l, 'x) collaborators \<Rightarrow> string list \<Rightarrow> wstring list \<Rightarrow> bool \<times> wstring list" where
  "append_search_entries E [] acc = (True, acc)"
| "append_search_entries E (Path # entries) acc =
     (if IsAbsoluteOrCurDirRelative E Path then
        (case UTF8ToUTF16StringOrThrow E Path of
           None \<Rightarrow> (False, acc)
         | Some w \<Rightarrow> append_search_entries E entries (acc @ [w]))
      else
        (case UTF8ToUTF16StringOrThrow E Path of
           None \<Rightarrow> (False, acc)
         | Some w \<Rightarrow> append_search_entries E entries (acc @ [''./'' @ w])))"

datatype thrown = Thrown_ERROR_OUT_OF_STRUCTURES | Thrown_by_conversion

definition SetupForCompilerInstance ::
  "('l, 'x) collaborators \<Rightarrow> string list \<Rightarrow> ('l, 'x) DxcArgsFileSystemImpl \<Rightarrow>
     ((thrown + unit) \<times> ('l, 'x) DxcArgsFileSystemImpl) option" where
  "SetupForCompilerInstance E entries s =
     (if m_searchEntries s \<noteq> [] then None
      else if length entries > MaxIncludedFiles
        then Some (Inl Thrown_ERROR_OUT_OF_STRUCTURES, s)
      else
        (case append_search_entries E entries (m_searchEntries s) of
           (True, es) \<Rightarrow> Some (Inr (), s\<lparr>m_searchEntries := es\<rparr>)
         | (False, es) \<Rightarrow> Some (Inl Thrown_by_conversion, s\<lparr>m_searchEntries := es\<rparr>)))"

definition RegisterOutputStream ::
  "wstring \<Rightarrow> 'x option \<Rightarrow> ('l, 'x) DxcArgsFileSystemImpl \<Rightarrow>
     (HRESULT \<times> ('l, 'x) DxcArgsFileSystemImpl) option" where
  "RegisterOutputStream pName pStream s =
     (if m_pOutputStream s \<noteq> None then None
      else Some (S_OK, s\<lparr>m_pOutputStream := pStream,
                          m_pOutputStreamName := Some (MakeAbsoluteOrCurDirRelativeW pName)\<rparr>))"

subsection \<open>Opening and querying\<close>

text \<open>
  \<^verbatim>\<open>CreateFileW\<close>. The access, share, disposition and flag arguments are not
  read by the source. \<open>prior\<close> is what the storage of the temporary handle
  objects held (see \<open>Handle_of_Bits\<close>).
\<close>

definition CreateFileW ::
  "('l, 'x) collaborators \<Rightarrow> HANDLE \<Rightarrow> wstring \<Rightarrow> ('l, 'x) DxcArgsFileSystemImpl \<Rightarrow>
     ((win32_error + HANDLE) \<times> ('l, 'x) DxcArgsFileSystemImpl) option" where
  "CreateFileW E prior lpFileName s =
     (let fileName = MakeAbsoluteOrCurDirRelativeW lpFileName in
      if m_pOutputStreamName s = Some fileName then Some (Inr OutputHandle, s)
      else
        (case TryFindDirHandle prior fileName s of
           None \<Rightarrow> None
         | Some dirHandle \<Rightarrow>
             if dirHandle \<noteq> INVALID_HANDLE_VALUE then Some (Inr dirHandle, s)
             else
               (case TryFindOrOpen E fileName s of
                  None \<Rightarrow> None
                | Some (Inr includedIndex, s') \<Rightarrow>
                    Some (Inr (IncludedFileIndexToHandle prior includedIndex), s')
                | Some (Inl findError, s') \<Rightarrow> Some (Inl findError, s'))))"

datatype file_attributes = FILE_ATTRIBUTE_NORMAL | FILE_ATTRIBUTE_DIRECTORY

definition GetFileAttributesW ::
  "('l, 'x) collaborators \<Rightarrow> HANDLE \<Rightarrow> wstring \<Rightarrow> ('l, 'x) DxcArgsFileSystemImpl \<Rightarrow>
     ((win32_error + file_attributes) \<times> ('l, 'x) DxcArgsFileSystemImpl) option" where
  "GetFileAttributesW E prior lpFileName s =
     (let fileName = MakeAbsoluteOrCurDirRelativeW lpFileName;
          sourceNameLen = length (m_pSourceName s);
          fileNameLen = length fileName
      in
      if fileNameLen = sourceNameLen \<and>
         take fileNameLen (m_pSourceName s) = take fileNameLen fileName
        then Some (Inr FILE_ATTRIBUTE_NORMAL, s)
      else if m_pOutputStreamName s = Some fileName then Some (Inr FILE_ATTRIBUTE_NORMAL, s)
      else
        (case TryFindDirHandle prior fileName s of
           None \<Rightarrow> None
         | Some dirHandle \<Rightarrow>
             if dirHandle \<noteq> INVALID_HANDLE_VALUE then Some (Inr FILE_ATTRIBUTE_DIRECTORY, s)
             else
               (case TryFindOrOpen E fileName s of
                  None \<Rightarrow> None
                | Some (Inr includedIndex, s') \<Rightarrow> Some (Inr FILE_ATTRIBUTE_NORMAL, s')
                | Some (Inl findError, s') \<Rightarrow> Some (Inl findError, s'))))"

text \<open>
  The fields of \<^verbatim>\<open>BY_HANDLE_FILE_INFORMATION\<close> the source writes after zeroing
  the structure.
\<close>

record BY_HANDLE_FILE_INFORMATION =
  dwFileAttributes :: file_attributes
  nFileSizeLow :: "32 word"
  nFileIndexLow :: "32 word"
  nFileIndexHigh :: "32 word"

definition GetFileInformationByHandle ::
  "('l, 'x) collaborators \<Rightarrow> HANDLE \<Rightarrow> ('l, 'x) DxcArgsFileSystemImpl \<Rightarrow>
     (win32_error + BY_HANDLE_FILE_INFORMATION) option" where
  "GetFileInformationByHandle E hFile s =
     (if IsFileKind hFile then
        (case HandleToIncludedFile hFile s of
           None \<Rightarrow> None
         | Some file \<Rightarrow>
             Some (Inr \<lparr>dwFileAttributes = FILE_ATTRIBUTE_NORMAL,
                        nFileSizeLow = of_nat (length (Blob file)),
                        nFileIndexLow = ucast hFile, nFileIndexHigh = 0\<rparr>))
      else if hFile = OutputHandle then
        (case m_pOutputStream s of
           None \<Rightarrow> None
         | Some out \<Rightarrow>
             (case StreamStat E out of
                None \<Rightarrow> Some (Inl ERROR_IO_DEVICE)
              | Some cbSizeLow \<Rightarrow>
                  Some (Inr \<lparr>dwFileAttributes = FILE_ATTRIBUTE_NORMAL,
                             nFileSizeLow = cbSizeLow,
                             nFileIndexLow = ucast hFile, nFileIndexHigh = 0\<rparr>)))
      else if IsDirHandle hFile then
        Some (Inr \<lparr>dwFileAttributes = FILE_ATTRIBUTE_DIRECTORY, nFileSizeLow = 0,
                   nFileIndexLow = ucast hFile, nFileIndexHigh = 1\<rparr>)
      else Some (Inl ERROR_INVALID_HANDLE))"

datatype file_type = FILE_TYPE_CHAR | FILE_TYPE_DISK

definition GetFileType :: "HANDLE \<Rightarrow> win32_error + file_type" where
  "GetFileType hFile =
     (if IsStdHandle hFile then Inr FILE_TYPE_CHAR
      else if \<not> IsSpecialUnknown hFile then Inr FILE_TYPE_DISK
      else Inl ERROR_NOT_FOUND)"

definition CloseHandle ::
  "HANDLE \<Rightarrow> ('l, 'x) DxcArgsFileSystemImpl \<Rightarrow>
     (win32_error + unit) \<times> ('l, 'x) DxcArgsFileSystemImpl" where
  "CloseHandle hObject s =
     (if IsKnownHandle hObject then (Inr (), s) else (Inl ERROR_INVALID_HANDLE, s))"

subsection \<open>Operations the file system does not offer\<close>

text \<open>
  Each of these sets \<^verbatim>\<open>ERROR_NOT_CAPABLE\<close> and returns its failure value
  (\<^verbatim>\<open>FALSE\<close>, \<^verbatim>\<open>INVALID_HANDLE_VALUE\<close> or a null pointer). The state is
  passed through to show that no member is assigned.
\<close>

type_synonym FILETIME = "64 word"

definition SetFileTime ::
  "HANDLE \<Rightarrow> FILETIME option \<Rightarrow> FILETIME option \<Rightarrow> FILETIME option \<Rightarrow>
     ('l, 'x) DxcArgsFileSystemImpl \<Rightarrow> (win32_error + unit) \<times> ('l, 'x) DxcArgsFileSystemImpl" where
  "SetFileTime hFile lpCreationTime lpLastAccessTime lpLastWriteTime s =
     (Inl ERROR_NOT_CAPABLE, s)"

definition CreateHardLinkW ::
  "wstring \<Rightarrow> wstring \<Rightarrow> ('l, 'x) DxcArgsFileSystemImpl \<Rightarrow>
     (win32_error + unit) \<times> ('l, 'x) DxcArgsFileSystemImpl" where
  "CreateHardLinkW lpFileName lpExistingFileName s = (Inl ERROR_NOT_CAPABLE, s)"

definition MoveFileExW ::
  "wstring \<Rightarrow> wstring option \<Rightarrow> 32 word \<Rightarrow> ('l, 'x) DxcArgsFileSystemImpl \<Rightarrow>
     (win32_error + unit) \<times> ('l, 'x) DxcArgsFileSystemImpl" where
  "MoveFileExW lpExistingFileName lpNewFileName dwFlags s = (Inl ERROR_NOT_CAPABLE, s)"

definition DeleteFileW ::
  "wstring \<Rightarrow> ('l, 'x) DxcArgsFileSystemImpl \<Rightarrow>
     (win32_error + unit) \<times> ('l, 'x) DxcArgsFileSystemImpl" where
  "DeleteFileW lpFileName s = (Inl ERROR_NOT_CAPABLE, s)"

definition RemoveDirectoryW ::
  "wstring \<Rightarrow> ('l, 'x) DxcArgsFileSystemImpl \<Rightarrow>
     (win32_error + unit) \<times> ('l, 'x) DxcArgsFileSystemImpl" where
  "RemoveDirectoryW lpFileName s = (Inl ERROR_NOT_CAPABLE, s)"

definition CreateDirectoryW ::
  "wstring \<Rightarrow> ('l, 'x) DxcArgsFileSystemImpl \<Rightarrow>
     (win32_error + unit) \<times> ('l, 'x) DxcArgsFileSystemImpl" where
  "CreateDirectoryW lpPathName s = (Inl ERROR_NOT_CAPABLE, s)"

definition CreateSymbolicLinkW ::
  "wstring \<Rightarrow> wstring \<Rightarrow> 32 word \<Rightarrow> ('l, 'x) DxcArgsFileSystemImpl \<Rightarrow>
     (win32_error + unit) \<times> ('l, 'x) DxcArgsFileSystemImpl" where
  "CreateSymbolicLinkW lpSymlinkFileName lpTargetFileName dwFlags s =
     (Inl ERROR_NOT_CAPABLE, s)"

definition CreateFileMappingW ::
  "HANDLE \<Rightarrow> 32 word \<Rightarrow> 32 word \<Rightarrow> 32 word \<Rightarrow> ('l, 'x) DxcArgsFileSystemImpl \<Rightarrow>
     (win32_error + HANDLE) \<times> ('l, 'x) DxcArgsFileSystemImpl" where
  "CreateFileMappingW hFile flProtect dwMaximumSizeHigh dwMaximumSizeLow s =
     (Inl ERROR_NOT_CAPABLE, s)"

definition MapViewOfFile ::
  "HANDLE \<Rightarrow> 32 word \<Rightarrow> 32 word \<Rightarrow> 32 word \<Rightarrow> 64 word \<Rightarrow>
     ('l, 'x) DxcArgsFileSystemImpl \<Rightarrow>
     (win32_error + 64 word) \<times> ('l, 'x) DxcArgsFileSystemImpl" where
  "MapViewOfFile hFileMappingObject dwDesiredAccess dwFileOffsetHigh dwFileOffsetLow
       dwNumberOfBytesToMap s =
     (Inl ERROR_NOT_CAPABLE, s)"

definition UnmapViewOfFile ::
  "64 word \<Rightarrow> ('l, 'x) DxcArgsFileSystemImpl \<Rightarrow>
     (win32_error + unit) \<times> ('l, 'x) DxcArgsFileSystemImpl" where
  "UnmapViewOfFile lpBaseAddress s = (Inl ERROR_NOT_CAPABLE, s)"

subsection \<open>The CRT layer\<close>

text \<open>
  \<^verbatim>\<open>errno_t resize_file(path, size)\<close> is \<^verbatim>\<open>return 0;\<close>. An \<^verbatim>\<open>errno_t\<close> of
  0 reports success; no last error is set.
\<close>

type_synonym errno_t = int

definition resize_file ::
  "wstring \<Rightarrow> 64 word \<Rightarrow> ('l, 'x) DxcArgsFileSystemImpl \<Rightarrow>
     errno_t \<times> ('l, 'x) DxcArgsFileSystemImpl" where
  "resize_file path sz s = (0, s)"

definition errno_success :: "errno_t \<Rightarrow> bool" where
  "errno_success e = (e = 0)"

text \<open>
  File descriptors are \<^verbatim>\<open>int\<close> (32 bits). \<^verbatim>\<open>(HANDLE)(uintptr_t)(fd)\<close> extends
  the sign, \<^verbatim>\<open>(int)(intptr_t)H.Handle\<close> keeps the low 32 bits.
\<close>

definition STDOUT_FILENO :: "32 word" where
  "STDOUT_FILENO = 1"

definition STDERR_FILENO :: "32 word" where
  "STDERR_FILENO = 2"

definition HandleFromFD :: "32 word \<Rightarrow> HANDLE" where
  "HandleFromFD fd =
     (if fd = STDOUT_FILENO then StdOutHandle
      else if fd = STDERR_FILENO then StdErrHandle
      else scast fd)"

definition open_osfhandle :: "HANDLE \<Rightarrow> 32 word \<Rightarrow> 32 word" where
  "open_osfhandle osfhandle flags =
     (if osfhandle = StdOutHandle then STDOUT_FILENO
      else if osfhandle = StdErrHandle then STDERR_FILENO
      else ucast osfhandle)"

definition get_osfhandle :: "32 word \<Rightarrow> HANDLE" where
  "get_osfhandle fd = HandleFromFD fd"

subsection \<open>The states an adapter runs through\<close>

text \<open>
  \<open>reaches E s t\<close>: from \<open>s\<close>, calls of the member functions that assign to members
  lead to \<open>t\<close>. (\<^verbatim>\<open>Read\<close>, \<^verbatim>\<open>Write\<close> and \<^verbatim>\<open>lseek\<close> forward to a stream
  object and assign to no member; the remaining functions are queries or the
  constant failures above.)
\<close>

inductive reaches ::
  "('l, 'x) collaborators \<Rightarrow> ('l, 'x) DxcArgsFileSystemImpl \<Rightarrow>
     ('l, 'x) DxcArgsFileSystemImpl \<Rightarrow> bool" for E s where
  reaches_refl: "reaches E s s"
| reaches_EnableDisplayIncludeProcess:
    "reaches E s t \<Longrightarrow> reaches E s (EnableDisplayIncludeProcess t)"
| reaches_CreateStdStreams:
    "reaches E s t \<Longrightarrow> CreateStdStreams out err t = Some (hr, t') \<Longrightarrow> reaches E s t'"
| reaches_SetupForCompilerInstance:
    "reaches E s t \<Longrightarrow> SetupForCompilerInstance E entries t = Some (r, t') \<Longrightarrow> reaches E s t'"
| reaches_RegisterOutputStream:
    "reaches E s t \<Longrightarrow> RegisterOutputStream pName pStream t = Some (hr, t') \<Longrightarrow> reaches E s t'"
| reaches_CreateFileW:
    "reaches E s t \<Longrightarrow> CreateFileW E prior lpFileName t = Some (rh, t') \<Longrightarrow> reaches E s t'"
| reaches_GetFileAttributesW:
    "reaches E s t \<Longrightarrow> GetFileAttributesW E prior lpFileName t = Some (ra, t') \<Longrightarrow> reaches E s t'"

subsection \<open>Runs of the registry, and an instrumented include handler\<close>

definition registered_names :: "('l, 'x) DxcArgsFileSystemImpl \<Rightarrow> wstring list" where
  "registered_names s = map Name (m_includedFiles s)"

text \<open>
  \<open>resolve_all E ps s\<close> calls \<^verbatim>\<open>TryFindOrOpen\<close> on the paths \<open>ps\<close> in turn and
  collects the results; \<open>result_at i\<close> picks the result of call number \<open>i\<close>
  (counted from 0).
\<close>

fun resolve_all ::
  "('l, 'x) collaborators \<Rightarrow> wstring list \<Rightarrow> ('l, 'x) DxcArgsFileSystemImpl \<Rightarrow>
     ((win32_error + nat) list \<times> ('l, 'x) DxcArgsFileSystemImpl) option" where
  "resolve_all E [] s = Some ([], s)"
| "resolve_all E (p # ps) s =
     (case TryFindOrOpen E p s of
        None \<Rightarrow> None
      | Some (r, s') \<Rightarrow>
          (case resolve_all E ps s' of
             None \<Rightarrow> None
           | Some (rs, t) \<Rightarrow> Some (r # rs, t)))"

definition result_at ::
  "nat \<Rightarrow> ((win32_error + nat) list \<times> ('l, 'x) DxcArgsFileSystemImpl) option \<Rightarrow>
     (win32_error + nat) option" where
  "result_at i run =
     (case run of
        None \<Rightarrow> None
      | Some (rs, t) \<Rightarrow> if i < length rs then Some (rs ! i) else None)"




text \<open>
  A handler supplies a file for every path when each call returns a blob, and the
  registry can take it when the two conversions of the blob succeed.
\<close>

definition supplies_every_path :: "('l, 'x) collaborators \<Rightarrow> bool" where
  "supplies_every_path E =
     ((\<forall>l p. \<exists>b l'. LoadSource E l p = (LoadBlob b, l')) \<and>
      (\<forall>b. DxcGetBlobAsUtf8 E b \<noteq> None) \<and>
      (\<forall>b. CreateReadOnlyBlobStream E b \<noteq> None))"

subsection \<open>Concrete collaborators and adapters\<close>

text \<open>
  Collaborators over in-memory streams (a stream is the list of its bytes): the
  handler supplies the one-byte file \<open>B\<close> for every path, every conversion
  succeeds.
\<close>

definition example_collaborators :: "(unit, blob) collaborators" where
  "example_collaborators =
     \<lparr>LoadSource = (\<lambda>l p. (LoadBlob [0x42], l)),
      DxcGetBlobAsUtf8 = Some,
      CreateReadOnlyBlobStream = Some,
      StreamWrite = (\<lambda>x d. Some (x @ map of_char d)),
      StreamStat = (\<lambda>x. Some (of_nat (length x))),
      UTF16ToUTF8StringOrThrow = Some,
      UTF8ToUTF16StringOrThrow = Some,
      IsAbsoluteOrCurDirRelative = IsAbsoluteOrCurDirRelativeW\<rparr>"


text \<open>
  The adapter constructed for the source \<open>A\<close> named \<^verbatim>\<open>./main.hlsl\<close> with a
  handler, and the same adapter after the file \<^verbatim>\<open>./inc/foo.h\<close> was opened.
\<close>

definition main_fs :: "'l \<Rightarrow> ('l, blob) DxcArgsFileSystemImpl" where
  "main_fs l =
     \<lparr>m_pSource = [0x41], m_pSourceName = ''./main.hlsl'', m_pSourceStream = [0x41],
      m_pOutputStream = None, m_pStdOutStream = None, m_pStdErrStream = None,
      m_pOutputStreamName = None, m_includeLoader = Some l, m_searchEntries = [],
      m_bDisplayIncludeProcess = False,
      m_includedFiles = [\<lparr>Blob = [0x41], BlobStream = [0x41], Name = ''./main.hlsl''\<rparr>]\<rparr>"

definition inc_fs :: "'l \<Rightarrow> ('l, blob) DxcArgsFileSystemImpl" where
  "inc_fs l =
     (main_fs l)\<lparr>m_includedFiles :=
        [\<lparr>Blob = [0x41], BlobStream = [0x41], Name = ''./main.hlsl''\<rparr>,
         \<lparr>Blob = [0x42], BlobStream = [0x42], Name = ''./inc/foo.h''\<rparr>]\<rparr>"

text \<open>
  A content of the storage of a temporary handle object in which bits above the
  bit-fields are set.
\<close>

definition stale_storage :: HANDLE where
  "stale_storage = 0x7FFFFFF00000"

text \<open>Pairwise different paths, none of them \<^verbatim>\<open>./main.hlsl\<close>.\<close>

definition numbered_path :: "nat \<Rightarrow> wstring" where
  "numbered_path i = ''./'' @ replicate (Suc i) (CHR ''a'')"

definition numbered_paths :: "nat \<Rightarrow> wstring list" where
  "numbered_paths k = map numbered_path [0..<k]"

subsection \<open>Growth and bounds of the two lists\<close>

definition extends ::
  "('l, 'x) DxcArgsFileSystemImpl \<Rightarrow> ('l, 'x) DxcArgsFileSystemImpl \<Rightarrow> bool" where
  "extends s t =
     (prefix (m_includedFiles s) (m_includedFiles t) \<and>
      prefix (m_searchEntries s) (m_searchEntries t))"

definition within_bounds :: "('l, 'x) DxcArgsFileSystemImpl \<Rightarrow> bool" where
  "within_bounds s =
     (length (m_includedFiles s) \<le> MaxIncludedFiles \<and>
      length (m_searchEntries s) \<le> MaxIncludedFiles)"

section \<open>Properties\<close>

subsection \<open>The handle codec\<close>

lemma Bits_of_Handle_of_Bits: "Bits_of_Handle (Handle_of_Bits prior b) = b"
  unfolding Bits_of_Handle_def Handle_of_Bits_def
  apply (cases b)
  apply simp
  apply (intro conjI bit_word_eqI)
    apply (auto simp: bit_simps dest: bit_imp_le_length)
  done

lemma Handle_of_Bits_inject:
  "Handle_of_Bits prior a = Handle_of_Bits prior' b \<Longrightarrow> a = b"
  by (metis Bits_of_Handle_of_Bits)

lemma GetKind_DxcArgsHandle: "GetKind (DxcArgsHandle prior HK i n) = HandleKind_value HK"
  by (cases HK) (simp_all add: GetKind_def DxcArgsHandle_def Bits_of_Handle_of_Bits)

lemma GetKind_DxcArgsHandle_file: "GetKind (DxcArgsHandle_file prior i) = HandleKind_value File"
  by (simp add: GetKind_def DxcArgsHandle_file_def Bits_of_Handle_of_Bits)

lemma Offset_DxcArgsHandle:
  "unat (Offset (Bits_of_Handle (DxcArgsHandle prior HK i n))) = i mod 256"
  by (simp add: DxcArgsHandle_def Bits_of_Handle_of_Bits unat_of_nat)

lemma Offset_DxcArgsHandle_file:
  "unat (Offset (Bits_of_Handle (DxcArgsHandle_file prior i))) = i mod 256"
  by (simp add: DxcArgsHandle_file_def Bits_of_Handle_of_Bits unat_of_nat)

lemma Length_of_DxcArgsHandle: "Length_of (DxcArgsHandle prior HK i n) = n mod 256"
  by (simp add: Length_of_def DxcArgsHandle_def Bits_of_Handle_of_Bits unat_of_nat)

lemma GetKind_zero: "GetKind 0 = 0"
  by (simp add: GetKind_def Bits_of_Handle_def)

lemma DxcArgsHandle_nonzero: "HK \<noteq> Special \<Longrightarrow> DxcArgsHandle prior HK i n \<noteq> 0"
proof
  assume "HK \<noteq> Special" and "DxcArgsHandle prior HK i n = 0"
  then have "HandleKind_value HK = 0"
    using GetKind_DxcArgsHandle [of prior HK i n] GetKind_zero by simp
  with \<open>HK \<noteq> Special\<close> show False by (cases HK) simp_all
qed

lemma DxcArgsHandle_file_nonzero: "DxcArgsHandle_file prior i \<noteq> 0"
proof
  assume "DxcArgsHandle_file prior i = 0"
  then have "HandleKind_value File = 0"
    using GetKind_DxcArgsHandle_file [of prior i] GetKind_zero by simp
  then show False by simp
qed

lemma special_handle_values:
  "UnknownHandle = 0" "StdOutHandle = 1" "StdErrHandle = 2" "OutputHandle = 4"
  by (simp_all add: UnknownHandle_def StdOutHandle_def StdErrHandle_def OutputHandle_def
      DxcArgsHandle_special_def Handle_of_Bits_def)

lemma GetKind_INVALID_HANDLE_VALUE: "GetKind INVALID_HANDLE_VALUE = 15"
  unfolding GetKind_def INVALID_HANDLE_VALUE_def Bits_of_Handle_def
  by code_simp

lemma DxcArgsHandle_not_INVALID: "DxcArgsHandle prior HK i n \<noteq> INVALID_HANDLE_VALUE"
proof
  assume "DxcArgsHandle prior HK i n = INVALID_HANDLE_VALUE"
  then have "HandleKind_value HK = 15"
    using GetKind_DxcArgsHandle [of prior HK i n] GetKind_INVALID_HANDLE_VALUE by simp
  then show False by (cases HK) simp_all
qed

text \<open>
  Within the widths of the bit-fields (index and length below 256) the bit-fields
  read back what was stored, whatever the storage held before, and handles with
  different fields are different.
\<close>

lemma codec_exact_within_width:
  assumes "i < 256" and "n < 256"
  shows "GetKind (DxcArgsHandle prior HK i n) = HandleKind_value HK"
    and "unat (Offset (Bits_of_Handle (DxcArgsHandle prior HK i n))) = i"
    and "Length_of (DxcArgsHandle prior HK i n) = n"
  using assms by (simp_all add: GetKind_DxcArgsHandle Offset_DxcArgsHandle Length_of_DxcArgsHandle)

lemma codec_injective_within_width:
  assumes "i < 256" "n < 256" "i' < 256" "n' < 256"
    and eq: "DxcArgsHandle prior HK i n = DxcArgsHandle prior' HK' i' n'"
  shows "HK = HK' \<and> i = i' \<and> n = n'"
proof -
  have "GetKind (DxcArgsHandle prior HK i n) = GetKind (DxcArgsHandle prior' HK' i' n')"
    using eq by simp
  then have "HandleKind_value HK = HandleKind_value HK'"
    by (simp add: GetKind_DxcArgsHandle)
  then have "HK = HK'" by (cases HK; cases HK') simp_all
  moreover have "unat (Offset (Bits_of_Handle (DxcArgsHandle prior HK i n))) =
      unat (Offset (Bits_of_Handle (DxcArgsHandle prior' HK' i' n')))"
    using eq by simp
  then have "i = i'"
    using assms(1,3) by (simp add: Offset_DxcArgsHandle)
  moreover have "Length_of (DxcArgsHandle prior HK i n) =
      Length_of (DxcArgsHandle prior' HK' i' n')"
    using eq by simp
  then have "n = n'"
    using assms(2,4) by (simp add: Length_of_DxcArgsHandle)
  ultimately show ?thesis by simp
qed

text \<open>
  Handles and file descriptors. Both conversions are casts, also at the standard
  handles, which are the words 1 and 2: a handle goes to its low 32 bits, a
  descriptor to its sign extension. So the way there and back keeps the low 32
  bits of a handle, the bit-fields among them, and gives the handle back when its
  upper bits are the sign extension of the lower ones, as for a handle constructed
  in zeroed storage.
\<close>

lemma open_osfhandle_ucast: "open_osfhandle h flags = ucast h"
  by (simp add: open_osfhandle_def special_handle_values STDOUT_FILENO_def STDERR_FILENO_def)

lemma get_osfhandle_scast: "get_osfhandle fd = scast fd"
  by (simp add: get_osfhandle_def HandleFromFD_def special_handle_values STDOUT_FILENO_def
      STDERR_FILENO_def)

lemma osfhandle_there_and_back:
  "get_osfhandle (open_osfhandle h flags) = scast (ucast h :: 32 word)"
  by (simp add: open_osfhandle_ucast get_osfhandle_scast)

lemma osfhandle_keeps_Bits:
  "Bits_of_Handle (get_osfhandle (open_osfhandle h flags)) = Bits_of_Handle h"
  unfolding osfhandle_there_and_back Bits_of_Handle_def
  apply simp
  apply (intro conjI bit_word_eqI)
    apply (auto simp: bit_simps min_def dest: bit_imp_le_length)
  done

lemma osfhandle_round_trip_zeroed_storage:
  "get_osfhandle (open_osfhandle (Handle_of_Bits 0 b) flags) = Handle_of_Bits 0 b"
  unfolding osfhandle_there_and_back Handle_of_Bits_def
  apply (rule bit_word_eqI)
  apply (auto simp: bit_simps min_def dest: bit_imp_le_length)
  done

lemma osfhandle_standard_handles:
  "HandleFromFD 1 = StdOutHandle" "HandleFromFD 2 = StdErrHandle"
  "open_osfhandle StdOutHandle flags = 1" "open_osfhandle StdErrHandle flags = 2"
  "get_osfhandle 1 = StdOutHandle" "get_osfhandle 2 = StdErrHandle"
  "get_osfhandle (open_osfhandle StdOutHandle flags) = StdOutHandle"
  "get_osfhandle (open_osfhandle StdErrHandle flags) = StdErrHandle"
  "get_osfhandle (open_osfhandle OutputHandle flags) = OutputHandle"
  by (simp_all add: HandleFromFD_def open_osfhandle_def get_osfhandle_def
      special_handle_values STDOUT_FILENO_def STDERR_FILENO_def)

subsection \<open>Path normalisation\<close>



lemma MakeAbsoluteOrCurDirRelativeW_nonempty: "MakeAbsoluteOrCurDirRelativeW P \<noteq> []"
  by (auto simp: MakeAbsoluteOrCurDirRelativeW_def IsAbsoluteOrCurDirRelativeW_def wch_def)



subsection \<open>Operations without support, and closing\<close>

text \<open>
  C4, as the code has it. Delete, remove-directory, rename, create-directory, both
  link operations, set-time and the three mapping operations fail with
  \<^verbatim>\<open>ERROR_NOT_CAPABLE\<close> and return the state they were given;
  \<^verbatim>\<open>resize_file\<close> returns 0, the success value of an \<^verbatim>\<open>errno_t\<close>, and
  likewise returns the state it was given.
\<close>

theorem unsupported_operations:
  "DeleteFileW path s = (Inl ERROR_NOT_CAPABLE, s) \<and>
   RemoveDirectoryW path s = (Inl ERROR_NOT_CAPABLE, s) \<and>
   MoveFileExW path new_path flags s = (Inl ERROR_NOT_CAPABLE, s) \<and>
   CreateDirectoryW path s = (Inl ERROR_NOT_CAPABLE, s) \<and>
   CreateHardLinkW path target s = (Inl ERROR_NOT_CAPABLE, s) \<and>
   CreateSymbolicLinkW path target flags s = (Inl ERROR_NOT_CAPABLE, s) \<and>
   SetFileTime h creation access written s = (Inl ERROR_NOT_CAPABLE, s) \<and>
   CreateFileMappingW h protect size_high size_low s = (Inl ERROR_NOT_CAPABLE, s) \<and>
   MapViewOfFile h desired offset_high offset_low bytes s = (Inl ERROR_NOT_CAPABLE, s) \<and>
   UnmapViewOfFile address s = (Inl ERROR_NOT_CAPABLE, s) \<and>
   errno_success (fst (resize_file path sz s)) \<and> snd (resize_file path sz s) = s"
  by (simp add: DeleteFileW_def RemoveDirectoryW_def MoveFileExW_def CreateDirectoryW_def
      CreateHardLinkW_def CreateSymbolicLinkW_def SetFileTime_def CreateFileMappingW_def
      MapViewOfFile_def UnmapViewOfFile_def resize_file_def errno_success_def)

text \<open>
  The claim as stated fails for resizing: on the adapter for \<^verbatim>\<open>./main.hlsl\<close>,
  \<^verbatim>\<open>resize_file\<close> reports success.
\<close>

theorem resize_file_succeeds:
  "errno_success (fst (resize_file ''./main.hlsl'' 0 (main_fs ()))) \<and>
   fst (resize_file ''./main.hlsl'' 0 (main_fs ())) = 0"
  by (simp add: resize_file_def errno_success_def)

text \<open>
  C8, as the code has it. \<^verbatim>\<open>CloseHandle\<close> never changes the state. A handle
  is known to it when it is not the unknown handle, the zero word: it succeeds on
  every handle the adapter issues (file handles, both kinds of directory handle,
  the standard-output, standard-error and output handles), and also on every other
  nonzero word, \<^verbatim>\<open>INVALID_HANDLE_VALUE\<close> among them. It fails, with
  \<^verbatim>\<open>ERROR_INVALID_HANDLE\<close>, on the unknown handle and on no other handle.
\<close>

theorem CloseHandle_known_and_unknown:
  "snd (CloseHandle h s) = s \<and>
   CloseHandle (IncludedFileIndexToHandle prior i) s = (Inr (), s) \<and>
   CloseHandle (DxcArgsHandle prior FileDir i n) s = (Inr (), s) \<and>
   CloseHandle (DxcArgsHandle prior SearchDir i n) s = (Inr (), s) \<and>
   CloseHandle StdOutHandle s = (Inr (), s) \<and>
   CloseHandle StdErrHandle s = (Inr (), s) \<and>
   CloseHandle OutputHandle s = (Inr (), s) \<and>
   CloseHandle INVALID_HANDLE_VALUE s = (Inr (), s) \<and>
   CloseHandle UnknownHandle s = (Inl ERROR_INVALID_HANDLE, s) \<and>
   (fst (CloseHandle h s) = Inl ERROR_INVALID_HANDLE) = (h = UnknownHandle) \<and>
   (CloseHandle h s = (Inr (), s)) = (h \<noteq> UnknownHandle)"
  using DxcArgsHandle_nonzero [of FileDir prior i n] DxcArgsHandle_nonzero [of SearchDir prior i n]
    DxcArgsHandle_file_nonzero [of prior i]
  by (simp add: CloseHandle_def IsKnownHandle_def IsSpecialUnknown_def
      IncludedFileIndexToHandle_def special_handle_values INVALID_HANDLE_VALUE_def)

text \<open>
  The claim as stated fails: closing a handle the adapter never issued succeeds.
  On the adapter for \<^verbatim>\<open>./main.hlsl\<close>, on which nothing was opened,
  \<^verbatim>\<open>CloseHandle\<close> returns success for \<^verbatim>\<open>INVALID_HANDLE_VALUE\<close> (whose kind
  field, 15, is the value of no handle kind) and for the word \<open>0x100000000\<close>
  (kind 0, which only the four constant handles carry, and none of them).
\<close>

theorem CloseHandle_succeeds_on_handles_never_issued:
  "CloseHandle INVALID_HANDLE_VALUE (main_fs ()) = (Inr (), main_fs ()) \<and>
   GetKind INVALID_HANDLE_VALUE = 15 \<and>
   CloseHandle 0x100000000 (main_fs ()) = (Inr (), main_fs ()) \<and>
   GetKind 0x100000000 = HandleKind_value Special \<and>
   (0x100000000 :: HANDLE) \<noteq> UnknownHandle \<and>
   (0x100000000 :: HANDLE) \<noteq> StdOutHandle \<and>
   (0x100000000 :: HANDLE) \<noteq> StdErrHandle \<and>
   (0x100000000 :: HANDLE) \<noteq> OutputHandle"
proof -
  have kinds: "GetKind INVALID_HANDLE_VALUE = 15" "GetKind 0x100000000 = HandleKind_value Special"
    unfolding GetKind_def INVALID_HANDLE_VALUE_def Bits_of_Handle_def
    by code_simp+
  have closes: "CloseHandle INVALID_HANDLE_VALUE (main_fs ()) = (Inr (), main_fs ())"
    "CloseHandle 0x100000000 (main_fs ()) = (Inr (), main_fs ())"
    by (simp_all add: CloseHandle_def IsKnownHandle_def IsSpecialUnknown_def
        INVALID_HANDLE_VALUE_def)
  from kinds closes show ?thesis
    by (simp add: special_handle_values)
qed

subsection \<open>Directory emulation\<close>

lemma IsDirOf_defined: "dirLen \<noteq> 0 \<Longrightarrow> IsDirOf lpDir dirLen fileName \<noteq> None"
  by (auto simp: IsDirOf_def)

lemma IsDirOf_True_iff:
  "IsDirOf lpDir (length lpDir) fileName = Some True \<longleftrightarrow>
     lpDir \<noteq> [] \<and> length lpDir < length fileName \<and>
     take (length lpDir) fileName = lpDir \<and>
     (is_separator (lpDir ! (length lpDir - 1)) \<or> is_separator (fileName ! length lpDir))"
  by (auto simp: IsDirOf_def wch_def)

lemma scan_file_dirs_match:
  "scan_file_dirs lpDir dirLen fs k = Some (Some i) \<Longrightarrow>
     k \<le> i \<and> i - k < length fs \<and> IsDirOf lpDir dirLen (Name (fs ! (i - k))) = Some True"
proof (induction fs arbitrary: k)
  case Nil
  then show ?case by simp
next
  case (Cons f fs)
  show ?case
  proof (cases "IsDirOf lpDir dirLen (Name f)")
    case None
    with Cons.prems show ?thesis by simp
  next
    case (Some b)
    show ?thesis
    proof (cases b)
      case True
      with Some Cons.prems show ?thesis by simp
    next
      case False
      with Some Cons.prems have "scan_file_dirs lpDir dirLen fs (Suc k) = Some (Some i)"
        by simp
      from Cons.IH [OF this] have ih: "Suc k \<le> i" "i - Suc k < length fs"
        "IsDirOf lpDir dirLen (Name (fs ! (i - Suc k))) = Some True"
        by simp_all
      from ih(1) have "i - k = Suc (i - Suc k)" by arith
      with ih show ?thesis by simp
    qed
  qed
qed

lemma scan_file_dirs_finds:
  assumes "dirLen \<noteq> 0" and "\<exists>f \<in> set fs. IsDirOf lpDir dirLen (Name f) = Some True"
  shows "\<exists>i. scan_file_dirs lpDir dirLen fs k = Some (Some i) \<and> k \<le> i \<and> i < k + length fs"
  using assms(2)
proof (induction fs arbitrary: k)
  case Nil
  then show ?case by simp
next
  case (Cons f fs)
  from IsDirOf_defined [OF assms(1)] obtain b where b: "IsDirOf lpDir dirLen (Name f) = Some b"
    by blast
  show ?case
  proof (cases b)
    case True
    with b show ?thesis by simp
  next
    case False
    with b Cons.prems have "\<exists>g \<in> set fs. IsDirOf lpDir dirLen (Name g) = Some True"
      by auto
    from Cons.IH [OF this, of "Suc k"] obtain i where
      "scan_file_dirs lpDir dirLen fs (Suc k) = Some (Some i)" "Suc k \<le> i" "i < Suc k + length fs"
      by blast
    with b False show ?thesis by auto
  qed
qed

lemma TryFindDirHandle_cases:
  assumes "TryFindDirHandle prior lpDir s = Some h"
  shows "(\<exists>i. scan_file_dirs lpDir (length lpDir) (m_includedFiles s) 0 = Some (Some i) \<and>
              h = DxcArgsHandle prior FileDir i (length lpDir)) \<or>
         (scan_file_dirs lpDir (length lpDir) (m_includedFiles s) 0 = Some None \<and>
          (\<exists>i. scan_search_dirs lpDir (length lpDir) (m_searchEntries s) 0 = Some (Some i) \<and>
              h = DxcArgsHandle prior SearchDir i (length lpDir))) \<or>
         (scan_file_dirs lpDir (length lpDir) (m_includedFiles s) 0 = Some None \<and>
          scan_search_dirs lpDir (length lpDir) (m_searchEntries s) 0 = Some None \<and>
          h = INVALID_HANDLE_VALUE)"
  using assms
  by (auto simp: TryFindDirHandle_def Let_def split: option.splits)

lemma TryFindDirHandle_FileDir:
  assumes "TryFindDirHandle prior lpDir s = Some h" and "GetKind h = HandleKind_value FileDir"
  shows "\<exists>i < length (m_includedFiles s).
           h = DxcArgsHandle prior FileDir i (length lpDir) \<and>
           IsDirOf lpDir (length lpDir) (Name (m_includedFiles s ! i)) = Some True"
proof -
  from TryFindDirHandle_cases [OF assms(1)] assms(2)
  obtain i where i: "scan_file_dirs lpDir (length lpDir) (m_includedFiles s) 0 = Some (Some i)"
      "h = DxcArgsHandle prior FileDir i (length lpDir)"
    by (auto simp: GetKind_DxcArgsHandle GetKind_INVALID_HANDLE_VALUE)
  from scan_file_dirs_match [OF i(1)] i(2) show ?thesis by auto
qed

lemma TryFindDirHandle_finds_file:
  assumes "lpDir \<noteq> []"
    and "\<exists>f \<in> set (m_includedFiles s). IsDirOf lpDir (length lpDir) (Name f) = Some True"
  shows "\<exists>i < length (m_includedFiles s).
           TryFindDirHandle prior lpDir s = Some (DxcArgsHandle prior FileDir i (length lpDir))"
proof -
  from assms(1) have "length lpDir \<noteq> 0" by simp
  from scan_file_dirs_finds [OF this assms(2), of 0] obtain i where
    "scan_file_dirs lpDir (length lpDir) (m_includedFiles s) 0 = Some (Some i)"
    "i < length (m_includedFiles s)"
    by auto
  then show ?thesis by (auto simp: TryFindDirHandle_def)
qed

lemma IsDirOf_inc: "IsDirOf ''./inc'' (length ''./inc'') ''./inc/foo.h'' = Some True"
  by (simp add: IsDirOf_def wch_def is_separator_def)

lemma IsDirOf_in: "IsDirOf ''./in'' (length ''./in'') ''./inc/foo.h'' = Some False"
  by (simp add: IsDirOf_def wch_def is_separator_def backslash_def)

lemma TryFindDirHandle_inc:
  "TryFindDirHandle prior ''./inc'' (inc_fs l) = Some (DxcArgsHandle prior FileDir 1 5)"
proof -
  have len: "length ''./inc'' = 5"
    by simp
  have scan: "scan_file_dirs ''./inc'' 5 (m_includedFiles (inc_fs l)) 0 = Some (Some 1)"
    by (simp add: inc_fs_def main_fs_def IsDirOf_def wch_def is_separator_def)
  show ?thesis
    unfolding TryFindDirHandle_def Let_def len scan by simp
qed

text \<open>
  C5. When \<^verbatim>\<open>TryFindDirHandle\<close> answers a path \<open>D\<close> with a handle of kind
  \<^verbatim>\<open>FileDir\<close>, the handle was made for a registered file \<open>F\<close> of which \<open>D\<close> is a
  strict prefix, and the last character of \<open>D\<close> or the character of \<open>F\<close> right
  after the prefix is a separator. With \<^verbatim>\<open>./inc/foo.h\<close> registered,
  \<^verbatim>\<open>./inc\<close> is answered with such a handle; \<^verbatim>\<open>./in\<close> does not match that
  file, and finds nothing when the registry holds \<^verbatim>\<open>./main.hlsl\<close> and
  \<^verbatim>\<open>./inc/foo.h\<close> and there is no search entry.
\<close>

theorem TryFindDirHandle_separator_aligned_prefix:
  "(TryFindDirHandle prior D s = Some h \<and> GetKind h = HandleKind_value FileDir \<longrightarrow>
      (\<exists>i < length (m_includedFiles s).
         h = DxcArgsHandle prior FileDir i (length D) \<and>
         D \<noteq> [] \<and>
         length D < length (Name (m_includedFiles s ! i)) \<and>
         take (length D) (Name (m_includedFiles s ! i)) = D \<and>
         (is_separator (D ! (length D - 1)) \<or>
          is_separator (Name (m_includedFiles s ! i) ! length D)))) \<and>
   (''./inc/foo.h'' \<in> set (registered_names s) \<longrightarrow>
      (\<exists>i < length (m_includedFiles s).
         TryFindDirHandle prior ''./inc'' s = Some (DxcArgsHandle prior FileDir i 5) \<and>
         TryFindDirHandle prior ''./inc'' s \<noteq> Some INVALID_HANDLE_VALUE)) \<and>
   IsDirOf ''./in'' (length ''./in'') ''./inc/foo.h'' = Some False \<and>
   (registered_names s = [''./main.hlsl'', ''./inc/foo.h''] \<and> m_searchEntries s = [] \<longrightarrow>
      TryFindDirHandle prior ''./in'' s = Some INVALID_HANDLE_VALUE)"
proof (intro conjI impI)
  assume "TryFindDirHandle prior D s = Some h \<and> GetKind h = HandleKind_value FileDir"
  then obtain i where "i < length (m_includedFiles s)"
      "h = DxcArgsHandle prior FileDir i (length D)"
      "IsDirOf D (length D) (Name (m_includedFiles s ! i)) = Some True"
    using TryFindDirHandle_FileDir [of prior D s h] by blast
  then show "\<exists>i < length (m_includedFiles s).
         h = DxcArgsHandle prior FileDir i (length D) \<and>
         D \<noteq> [] \<and>
         length D < length (Name (m_includedFiles s ! i)) \<and>
         take (length D) (Name (m_includedFiles s ! i)) = D \<and>
         (is_separator (D ! (length D - 1)) \<or>
          is_separator (Name (m_includedFiles s ! i) ! length D))"
    unfolding IsDirOf_True_iff by blast
next
  assume "''./inc/foo.h'' \<in> set (registered_names s)"
  then have "\<exists>f \<in> set (m_includedFiles s).
      IsDirOf ''./inc'' (length ''./inc'') (Name f) = Some True"
    using IsDirOf_inc by (auto simp: registered_names_def)
  moreover have len: "length ''./inc'' = 5"
    by simp
  ultimately have "\<exists>i < length (m_includedFiles s).
         TryFindDirHandle prior ''./inc'' s = Some (DxcArgsHandle prior FileDir i 5)"
    using TryFindDirHandle_finds_file [of "''./inc''" s prior] by (simp only: len) simp
  then show "\<exists>i < length (m_includedFiles s).
         TryFindDirHandle prior ''./inc'' s = Some (DxcArgsHandle prior FileDir i 5) \<and>
         TryFindDirHandle prior ''./inc'' s \<noteq> Some INVALID_HANDLE_VALUE"
    by (auto simp: DxcArgsHandle_not_INVALID)
next
  show "IsDirOf ''./in'' (length ''./in'') ''./inc/foo.h'' = Some False"
    by (rule IsDirOf_in)
next
  assume a: "registered_names s = [''./main.hlsl'', ''./inc/foo.h''] \<and> m_searchEntries s = []"
  then obtain f g where fg: "m_includedFiles s = [f, g]" "Name f = ''./main.hlsl''"
      "Name g = ''./inc/foo.h''"
    by (auto simp: registered_names_def)
  have "IsDirOf ''./in'' (length ''./in'') ''./main.hlsl'' = Some False"
    by code_simp
  moreover have "IsDirOf ''./in'' (length ''./in'') ''./inc/foo.h'' = Some False"
    by (rule IsDirOf_in)
  ultimately show "TryFindDirHandle prior ''./in'' s = Some INVALID_HANDLE_VALUE"
    using a fg by (simp add: TryFindDirHandle_def)
qed

theorem TryFindDirHandle_separator_aligned_prefix_witness:
  "TryFindDirHandle stale_storage ''./inc'' (inc_fs ()) =
     Some (DxcArgsHandle stale_storage FileDir 1 5) \<and>
   GetKind (DxcArgsHandle stale_storage FileDir 1 5) = HandleKind_value FileDir \<and>
   ''./inc/foo.h'' \<in> set (registered_names (inc_fs ())) \<and>
   Name (m_includedFiles (inc_fs ()) ! 1) = ''./inc/foo.h'' \<and>
   registered_names (inc_fs ()) = [''./main.hlsl'', ''./inc/foo.h''] \<and>
   m_searchEntries (inc_fs ()) = [] \<and>
   TryFindDirHandle stale_storage ''./in'' (inc_fs ()) = Some INVALID_HANDLE_VALUE"
proof -
  have names: "registered_names (inc_fs ()) = [''./main.hlsl'', ''./inc/foo.h'']"
    "m_searchEntries (inc_fs ()) = []"
    by (simp_all add: registered_names_def inc_fs_def main_fs_def)
  have found: "TryFindDirHandle stale_storage ''./inc'' (inc_fs ()) =
      Some (DxcArgsHandle stale_storage FileDir 1 5)"
    by (rule TryFindDirHandle_inc)
  have kind: "GetKind (DxcArgsHandle stale_storage FileDir 1 5) = HandleKind_value FileDir"
    by (rule GetKind_DxcArgsHandle)
  show ?thesis
    using TryFindDirHandle_separator_aligned_prefix
      [of stale_storage "''./inc''" "inc_fs ()" "DxcArgsHandle stale_storage FileDir 1 5"]
      names found kind
    by (simp add: inc_fs_def main_fs_def)
qed

subsection \<open>Opening the primary source\<close>

lemma MakeAbsoluteOrCurDirRelativeW_main:
  "MakeAbsoluteOrCurDirRelativeW ''main.hlsl'' = ''./main.hlsl''"
  "MakeAbsoluteOrCurDirRelativeW ''./main.hlsl'' = ''./main.hlsl''"
  by (simp_all add: MakeAbsoluteOrCurDirRelativeW_def IsAbsoluteOrCurDirRelativeW_def wch_def
      NUL_def backslash_def)

lemma IsDirOf_self: "IsDirOf lpDir (length lpDir) lpDir = Some False"
  by (simp add: IsDirOf_def)

lemma CreateDxcArgsFileSystem_Some:
  assumes "CreateDxcArgsFileSystem E pSource pSourceName pHandler = Some s"
  shows "\<exists>sourceStream.
           s = \<lparr>m_pSource = pSource,
                m_pSourceName = MakeAbsoluteOrCurDirRelativeW pSourceName,
                m_pSourceStream = sourceStream, m_pOutputStream = None,
                m_pStdOutStream = None, m_pStdErrStream = None,
                m_pOutputStreamName = None, m_includeLoader = pHandler,
                m_searchEntries = [], m_bDisplayIncludeProcess = False,
                m_includedFiles =
                  [\<lparr>Blob = pSource, BlobStream = sourceStream,
                    Name = MakeAbsoluteOrCurDirRelativeW pSourceName\<rparr>]\<rparr>"
  using assms by (auto simp: CreateDxcArgsFileSystem_def Let_def split: option.splits)

lemma CreateDxcArgsFileSystem_example:
  "CreateDxcArgsFileSystem example_collaborators [0x41] ''./main.hlsl'' (Some l) =
     Some (main_fs l)"
  by (simp add: CreateDxcArgsFileSystem_def example_collaborators_def main_fs_def
      MakeAbsoluteOrCurDirRelativeW_main Let_def)

lemma IsFileKind_IncludedFileIndexToHandle: "IsFileKind (IncludedFileIndexToHandle prior i)"
  by (simp add: IsFileKind_def IncludedFileIndexToHandle_def GetKind_DxcArgsHandle_file)

lemma GetFileIndex_IncludedFileIndexToHandle:
  "GetFileIndex (IncludedFileIndexToHandle prior i) = Some (i mod 256)"
  using IsFileKind_IncludedFileIndexToHandle [of prior i]
  by (simp add: GetFileIndex_def IncludedFileIndexToHandle_def Offset_DxcArgsHandle_file)

lemma CreateFileW_primary:
  assumes "CreateDxcArgsFileSystem E pSource ''./main.hlsl'' pHandler = Some s"
    and "MakeAbsoluteOrCurDirRelativeW lpFileName = ''./main.hlsl''"
  shows "CreateFileW E prior lpFileName s = Some (Inr (IncludedFileIndexToHandle prior 0), s)"
proof -
  from CreateDxcArgsFileSystem_Some [OF assms(1)] obtain sourceStream where
    s: "s = \<lparr>m_pSource = pSource, m_pSourceName = ''./main.hlsl'',
                m_pSourceStream = sourceStream, m_pOutputStream = None,
                m_pStdOutStream = None, m_pStdErrStream = None,
                m_pOutputStreamName = None, m_includeLoader = pHandler,
                m_searchEntries = [], m_bDisplayIncludeProcess = False,
                m_includedFiles =
                  [\<lparr>Blob = pSource, BlobStream = sourceStream, Name = ''./main.hlsl''\<rparr>]\<rparr>"
    by (auto simp: MakeAbsoluteOrCurDirRelativeW_main)
  have dir: "TryFindDirHandle prior ''./main.hlsl'' s = Some INVALID_HANDLE_VALUE"
    using IsDirOf_self [of "''./main.hlsl''"]
    by (simp add: TryFindDirHandle_def s)
  have reg: "TryFindOrOpen E ''./main.hlsl'' s = Some (Inr 0, s)"
    by (simp add: TryFindOrOpen_def s)
  have out: "m_pOutputStreamName s = None"
    by (simp add: s)
  show ?thesis
    by (simp add: CreateFileW_def assms(2) dir reg out)
qed

text \<open>
  C3, as the code has it. \<^verbatim>\<open>CreateFileW\<close> normalises the name it is given, so
  on an adapter constructed for \<^verbatim>\<open>./main.hlsl\<close> with one byte of content both
  \<^verbatim>\<open>main.hlsl\<close> and \<^verbatim>\<open>./main.hlsl\<close> open the primary file, handle of index
  0, whose size is reported as 1.
\<close>

theorem open_primary_source:
  assumes "CreateDxcArgsFileSystem E pSource ''./main.hlsl'' pHandler = Some s"
    and "length pSource = 1"
  shows "CreateFileW E prior ''main.hlsl'' s = Some (Inr (IncludedFileIndexToHandle prior 0), s) \<and>
         CreateFileW E prior ''./main.hlsl'' s = Some (Inr (IncludedFileIndexToHandle prior 0), s) \<and>
         IsFileKind (IncludedFileIndexToHandle prior 0) \<and>
         GetFileIndex (IncludedFileIndexToHandle prior 0) = Some 0 \<and>
         (\<exists>info. GetFileInformationByHandle E (IncludedFileIndexToHandle prior 0) s = Some (Inr info) \<and>
                 dwFileAttributes info = FILE_ATTRIBUTE_NORMAL \<and> nFileSizeLow info = 1)"
proof -
  from CreateDxcArgsFileSystem_Some [OF assms(1)] obtain sourceStream where
    files: "m_includedFiles s =
       [\<lparr>Blob = pSource, BlobStream = sourceStream,
         Name = MakeAbsoluteOrCurDirRelativeW ''./main.hlsl''\<rparr>]"
    by auto
  have idx: "GetFileIndex (IncludedFileIndexToHandle prior 0) = Some 0"
    by (simp add: GetFileIndex_IncludedFileIndexToHandle)
  have "GetFileInformationByHandle E (IncludedFileIndexToHandle prior 0) s =
      Some (Inr \<lparr>dwFileAttributes = FILE_ATTRIBUTE_NORMAL, nFileSizeLow = 1,
                 nFileIndexLow = ucast (IncludedFileIndexToHandle prior 0), nFileIndexHigh = 0\<rparr>)"
    using assms(2)
    by (simp add: GetFileInformationByHandle_def IsFileKind_IncludedFileIndexToHandle
        HandleToIncludedFile_def idx files)
  then show ?thesis
    using CreateFileW_primary [OF assms(1) MakeAbsoluteOrCurDirRelativeW_main(1)]
      CreateFileW_primary [OF assms(1) MakeAbsoluteOrCurDirRelativeW_main(2)]
      IsFileKind_IncludedFileIndexToHandle [of prior 0] idx
    by simp
qed

theorem open_primary_source_witness:
  "CreateDxcArgsFileSystem example_collaborators [0x41] ''./main.hlsl'' (Some ()) =
     Some (main_fs ()) \<and>
   length [0x41 :: 8 word] = 1 \<and>
   CreateFileW example_collaborators stale_storage ''./main.hlsl'' (main_fs ()) =
     Some (Inr (IncludedFileIndexToHandle stale_storage 0), main_fs ()) \<and>
   GetFileIndex (IncludedFileIndexToHandle stale_storage 0) = Some 0"
  using open_primary_source [OF CreateDxcArgsFileSystem_example [of "()"]]
    CreateDxcArgsFileSystem_example [of "()"]
  by simp

text \<open>
  The claim as stated fails: on that adapter, opening the name \<^verbatim>\<open>main.hlsl\<close>
  does not fail with \<^verbatim>\<open>ERROR_NOT_FOUND\<close>, it returns the primary file handle.
\<close>

theorem open_unrooted_primary_name_succeeds:
  "CreateDxcArgsFileSystem example_collaborators [0x41] ''./main.hlsl'' (Some ()) =
     Some (main_fs ()) \<and>
   CreateFileW example_collaborators stale_storage ''main.hlsl'' (main_fs ()) =
     Some (Inr (IncludedFileIndexToHandle stale_storage 0), main_fs ()) \<and>
   CreateFileW example_collaborators stale_storage ''main.hlsl'' (main_fs ()) \<noteq>
     Some (Inl ERROR_NOT_FOUND, main_fs ())"
  using CreateFileW_primary [OF CreateDxcArgsFileSystem_example [of "()"]
      MakeAbsoluteOrCurDirRelativeW_main(1)]
    CreateDxcArgsFileSystem_example [of "()"]
  by simp

subsection \<open>The registry\<close>

lemma scan_included_None_iff:
  "scan_included p fs k = None \<longleftrightarrow> p \<notin> set (map Name fs)"
  by (induction fs arbitrary: k) auto

lemma scan_included_Some:
  "scan_included p fs k = Some i \<Longrightarrow> k \<le> i \<and> i - k < length fs \<and> Name (fs ! (i - k)) = p"
proof (induction fs arbitrary: k)
  case Nil
  then show ?case by simp
next
  case (Cons f fs)
  show ?case
  proof (cases "p = Name f")
    case True
    with Cons.prems show ?thesis by simp
  next
    case False
    with Cons.prems have "scan_included p fs (Suc k) = Some i" by simp
    from Cons.IH [OF this] have ih: "Suc k \<le> i" "i - Suc k < length fs"
      "Name (fs ! (i - Suc k)) = p"
      by simp_all
    from ih(1) have "i - k = Suc (i - Suc k)" by arith
    with ih show ?thesis by simp
  qed
qed

lemma scan_included_append:
  "scan_included p fs k = Some i \<Longrightarrow> scan_included p (fs @ gs) k = Some i"
  by (induction fs arbitrary: k) (auto split: if_splits)

lemma scan_included_new:
  "p \<notin> set (map Name fs) \<Longrightarrow> scan_included p (fs @ [f]) k =
     (if p = Name f then Some (k + length fs) else None)"
  by (induction fs arbitrary: k) auto



text \<open>
  What a call that returns can have done: nothing to the list, or appended one
  entry of the requested name, which was not registered, below the capacity.
\<close>

lemma TryFindOrOpen_effect:
  assumes "TryFindOrOpen E p s = Some (r, t)"
  shows "m_searchEntries t = m_searchEntries s \<and>
         m_bDisplayIncludeProcess t = m_bDisplayIncludeProcess s \<and>
         (m_includeLoader t = None \<longleftrightarrow> m_includeLoader s = None) \<and>
         ((m_includedFiles t = m_includedFiles s \<and>
           (\<forall>i. r = Inr i \<longrightarrow> scan_included p (m_includedFiles s) 0 = Some i)) \<or>
          (\<exists>f. m_includedFiles t = m_includedFiles s @ [f] \<and> Name f = p \<and>
               p \<notin> set (registered_names s) \<and>
               length (m_includedFiles s) \<noteq> MaxIncludedFiles \<and>
               r = Inr (length (m_includedFiles s))))"
proof (cases "scan_included p (m_includedFiles s) 0")
  case (Some i)
  with assms show ?thesis by (auto simp: TryFindOrOpen_def)
next
  case None
  then have new: "p \<notin> set (registered_names s)"
    by (simp add: scan_included_None_iff registered_names_def)
  show ?thesis
  proof (cases "m_includeLoader s")
    case no_loader: None
    with None assms show ?thesis by (auto simp: TryFindOrOpen_def)
  next
    case (Some l)
    show ?thesis
    proof (cases "length (m_includedFiles s) = MaxIncludedFiles")
      case True
      with None Some assms show ?thesis by (auto simp: TryFindOrOpen_def)
    next
      case False
      obtain lr l' where load: "LoadSource E l p = (lr, l')"
        by (cases "LoadSource E l p")
      show ?thesis
      proof (cases lr)
        case LoadFailed
        with None Some False load assms show ?thesis by (auto simp: TryFindOrOpen_def)
      next
        case LoadNull
        with None Some False load assms show ?thesis by (auto simp: TryFindOrOpen_def)
      next
        case (LoadBlob fileBlob)
        show ?thesis
        proof (cases "DxcGetBlobAsUtf8 E fileBlob")
          case no_utf8: None
          with None Some False load LoadBlob assms show ?thesis
            by (auto simp: TryFindOrOpen_def)
        next
          case utf8: (Some fileBlobEncoded)
          show ?thesis
          proof (cases "CreateReadOnlyBlobStream E fileBlobEncoded")
            case no_stream: None
            with None Some False load LoadBlob utf8 assms show ?thesis
              by (auto simp: TryFindOrOpen_def)
          next
            case stream: (Some fileStream)
            with None Some False load LoadBlob utf8 assms new show ?thesis
              by (auto simp: TryFindOrOpen_def Let_def split: if_splits option.splits)
          qed
        qed
      qed
    qed
  qed
qed

lemma TryFindOrOpen_index:
  assumes "TryFindOrOpen E p s = Some (Inr i, t)"
  shows "scan_included p (m_includedFiles t) 0 = Some i"
proof -
  from TryFindOrOpen_effect [OF assms]
  consider "m_includedFiles t = m_includedFiles s"
      "scan_included p (m_includedFiles s) 0 = Some i"
    | f where "m_includedFiles t = m_includedFiles s @ [f]" "Name f = p"
      "p \<notin> set (registered_names s)" "i = length (m_includedFiles s)"
    by auto
  then show ?thesis
  proof cases
    case 1
    then show ?thesis by simp
  next
    case 2
    then show ?thesis
      using scan_included_new [of p "m_includedFiles s" f 0]
      by (simp add: registered_names_def)
  qed
qed

text \<open>With the trace off, a handler that supplies every path, and room left.\<close>

lemma TryFindOrOpen_new:
  assumes "supplies_every_path E" and "\<not> m_bDisplayIncludeProcess s"
    and "m_includeLoader s \<noteq> None" and "p \<notin> set (registered_names s)"
    and "length (m_includedFiles s) \<noteq> MaxIncludedFiles"
  shows "\<exists>t. TryFindOrOpen E p s = Some (Inr (length (m_includedFiles s)), t) \<and>
             registered_names t = registered_names s @ [p] \<and>
             \<not> m_bDisplayIncludeProcess t \<and> m_includeLoader t \<noteq> None"
proof -
  from assms(3) obtain l where l: "m_includeLoader s = Some l" by auto
  from assms(1) obtain b l' where load: "LoadSource E l p = (LoadBlob b, l')"
    unfolding supplies_every_path_def by blast
  from assms(1) obtain e where utf8: "DxcGetBlobAsUtf8 E b = Some e"
    unfolding supplies_every_path_def by blast
  from assms(1) obtain st where stream: "CreateReadOnlyBlobStream E e = Some st"
    unfolding supplies_every_path_def by blast
  from assms(4) have none: "scan_included p (m_includedFiles s) 0 = None"
    by (simp add: scan_included_None_iff registered_names_def)
  show ?thesis
    using assms(2,5) l load utf8 stream none
    by (simp add: TryFindOrOpen_def Let_def registered_names_def)
qed

lemma TryFindOrOpen_full:
  assumes "m_includeLoader s \<noteq> None" and "p \<notin> set (registered_names s)"
    and "length (m_includedFiles s) = MaxIncludedFiles"
  shows "TryFindOrOpen E p s = Some (Inl ERROR_OUT_OF_STRUCTURES, s)"
proof -
  from assms(2) have "scan_included p (m_includedFiles s) 0 = None"
    by (simp add: scan_included_None_iff registered_names_def)
  with assms(1,3) show ?thesis
    by (auto simp: TryFindOrOpen_def)
qed

subsection \<open>Capacity\<close>

text \<open>
  Resolving pairwise different unregistered paths, trace off, with a handler that
  supplies every path: call number \<open>i\<close> gets the next index while the registry
  holds fewer than \<^verbatim>\<open>MaxIncludedFiles\<close> entries, and
  \<^verbatim>\<open>ERROR_OUT_OF_STRUCTURES\<close> from then on.
\<close>

lemma resolve_all_unseen:
  assumes "supplies_every_path E"
  shows "\<not> m_bDisplayIncludeProcess s \<Longrightarrow> m_includeLoader s \<noteq> None \<Longrightarrow>
         distinct ps \<Longrightarrow> set ps \<inter> set (registered_names s) = {} \<Longrightarrow>
         length (m_includedFiles s) \<le> MaxIncludedFiles \<Longrightarrow>
         \<exists>rs t. resolve_all E ps s = Some (rs, t) \<and> length rs = length ps \<and>
           (\<forall>i < length ps. rs ! i =
              (if length (m_includedFiles s) + i < MaxIncludedFiles
               then Inr (length (m_includedFiles s) + i)
               else Inl ERROR_OUT_OF_STRUCTURES))"
proof (induction ps arbitrary: s)
  case Nil
  then show ?case by simp
next
  case (Cons p ps)
  let ?n = "length (m_includedFiles s)"
  from Cons.prems have p_new: "p \<notin> set (registered_names s)" and p_once: "p \<notin> set ps"
    and ps: "distinct ps" "set ps \<inter> set (registered_names s) = {}"
    by auto
  show ?case
  proof (cases "?n = MaxIncludedFiles")
    case True
    have step: "TryFindOrOpen E p s = Some (Inl ERROR_OUT_OF_STRUCTURES, s)"
      using TryFindOrOpen_full [OF Cons.prems(2) p_new True] .
    from Cons.IH [OF Cons.prems(1,2) ps Cons.prems(5)] obtain rs t where
      rest: "resolve_all E ps s = Some (rs, t)" "length rs = length ps"
        "\<forall>i < length ps. rs ! i =
           (if ?n + i < MaxIncludedFiles then Inr (?n + i) else Inl ERROR_OUT_OF_STRUCTURES)"
      by blast
    have "\<forall>i < length (p # ps). (Inl ERROR_OUT_OF_STRUCTURES # rs) ! i =
           (if ?n + i < MaxIncludedFiles then Inr (?n + i) else Inl ERROR_OUT_OF_STRUCTURES)"
      using rest(3) True by (auto simp: nth_Cons split: nat.splits)
    with step rest(1,2) show ?thesis by simp
  next
    case False
    from TryFindOrOpen_new [OF assms Cons.prems(1,2) p_new False] obtain s' where
      step: "TryFindOrOpen E p s = Some (Inr ?n, s')"
        and s': "registered_names s' = registered_names s @ [p]"
          "\<not> m_bDisplayIncludeProcess s'" "m_includeLoader s' \<noteq> None"
      by blast
    have "length (registered_names s') = length (registered_names s @ [p])"
      using s'(1) by simp
    then have len: "length (m_includedFiles s') = Suc ?n"
      by (simp add: registered_names_def)
    from ps p_once s'(1) have disj: "set ps \<inter> set (registered_names s') = {}"
      by auto
    from False Cons.prems(5) len have bound: "length (m_includedFiles s') \<le> MaxIncludedFiles"
      by simp
    from Cons.IH [OF s'(2,3) ps(1) disj bound] obtain rs t where
      rest: "resolve_all E ps s' = Some (rs, t)" "length rs = length ps"
        "\<forall>i < length ps. rs ! i =
           (if Suc ?n + i < MaxIncludedFiles then Inr (Suc ?n + i)
            else Inl ERROR_OUT_OF_STRUCTURES)"
      unfolding len by blast
    have "\<forall>i < length (p # ps). (Inr ?n # rs) ! i =
           (if ?n + i < MaxIncludedFiles then Inr (?n + i) else Inl ERROR_OUT_OF_STRUCTURES)"
      using rest(3) False Cons.prems(5) by (auto simp: nth_Cons split: nat.splits)
    with step rest(1,2) show ?thesis by simp
  qed
qed

lemma resolve_all_fresh:
  assumes "supplies_every_path E"
    and "CreateDxcArgsFileSystem E pSource pSourceName (Some l) = Some s"
    and "distinct ps" and "MakeAbsoluteOrCurDirRelativeW pSourceName \<notin> set ps"
  shows "\<exists>rs t. resolve_all E ps s = Some (rs, t) \<and> length rs = length ps \<and>
           (\<forall>i < length ps. rs ! i =
              (if i < 999 then Inr (Suc i) else Inl ERROR_OUT_OF_STRUCTURES))"
proof -
  from CreateDxcArgsFileSystem_Some [OF assms(2)] have fresh:
    "\<not> m_bDisplayIncludeProcess s" "m_includeLoader s \<noteq> None"
    "registered_names s = [MakeAbsoluteOrCurDirRelativeW pSourceName]"
    "length (m_includedFiles s) = 1"
    by (auto simp: registered_names_def)
  from fresh(3) assms(4) have disj: "set ps \<inter> set (registered_names s) = {}"
    by simp
  from fresh(4) have bound: "length (m_includedFiles s) \<le> MaxIncludedFiles"
    by (simp add: MaxIncludedFiles_def)
  from resolve_all_unseen [OF assms(1) fresh(1,2) assms(3) disj bound] show ?thesis
    unfolding fresh(4) MaxIncludedFiles_def by (auto simp: less_Suc_eq_le Suc_le_eq)
qed

lemma supplies_every_path_example: "supplies_every_path example_collaborators"
  by (simp add: supplies_every_path_def example_collaborators_def)

lemma numbered_path_inject: "numbered_path i = numbered_path j \<longleftrightarrow> i = j"
proof
  assume "numbered_path i = numbered_path j"
  then have "length (numbered_path i) = length (numbered_path j)" by simp
  then show "i = j" by (simp add: numbered_path_def)
qed simp

lemma distinct_numbered_paths: "distinct (numbered_paths k)"
  by (simp add: numbered_paths_def distinct_map inj_on_def numbered_path_inject)

lemma main_not_numbered: "''./main.hlsl'' \<notin> set (numbered_paths k)"
  by (auto simp: numbered_paths_def numbered_path_def)

lemma length_numbered_paths: "length (numbered_paths k) = k"
  by (simp add: numbered_paths_def)

text \<open>
  C2, as the code has it. The primary source is entry 0 of the registry and counts
  towards the bound of 1000: on a freshly constructed adapter whose handler supplies
  every path, resolving pairwise different paths other than the primary name
  succeeds for the first 999 of them, call number \<open>i\<close> (from 0) registering index
  \<open>i + 1\<close>, and fails with \<^verbatim>\<open>ERROR_OUT_OF_STRUCTURES\<close> from the 1000th on.
\<close>

theorem capacity_reached_on_1000th_unseen_path:
  assumes "supplies_every_path E"
    and "CreateDxcArgsFileSystem E pSource pSourceName (Some l) = Some s"
    and "distinct ps" and "MakeAbsoluteOrCurDirRelativeW pSourceName \<notin> set ps"
  shows "\<exists>rs t. resolve_all E ps s = Some (rs, t) \<and> length rs = length ps \<and>
           (\<forall>i < length ps. rs ! i =
              (if i < 999 then Inr (Suc i) else Inl ERROR_OUT_OF_STRUCTURES))"
  using resolve_all_fresh [OF assms] .

theorem capacity_reached_on_1000th_unseen_path_witness:
  "supplies_every_path example_collaborators \<and>
   CreateDxcArgsFileSystem example_collaborators [0x41] ''./main.hlsl'' (Some ()) =
     Some (main_fs ()) \<and>
   distinct (numbered_paths 1001) \<and>
   MakeAbsoluteOrCurDirRelativeW ''./main.hlsl'' \<notin> set (numbered_paths 1001) \<and>
   result_at 0 (resolve_all example_collaborators (numbered_paths 1001) (main_fs ())) =
     Some (Inr 1) \<and>
   result_at 998 (resolve_all example_collaborators (numbered_paths 1001) (main_fs ())) =
     Some (Inr 999) \<and>
   result_at 999 (resolve_all example_collaborators (numbered_paths 1001) (main_fs ())) =
     Some (Inl ERROR_OUT_OF_STRUCTURES) \<and>
   result_at 1000 (resolve_all example_collaborators (numbered_paths 1001) (main_fs ())) =
     Some (Inl ERROR_OUT_OF_STRUCTURES)"
proof -
  have not_main: "MakeAbsoluteOrCurDirRelativeW ''./main.hlsl'' \<notin> set (numbered_paths 1001)"
    using main_not_numbered by (simp add: MakeAbsoluteOrCurDirRelativeW_main)
  from capacity_reached_on_1000th_unseen_path
    [OF supplies_every_path_example CreateDxcArgsFileSystem_example
      distinct_numbered_paths not_main]
  obtain rs t where run:
    "resolve_all example_collaborators (numbered_paths 1001) (main_fs ()) = Some (rs, t)"
    "length rs = 1001"
    "\<forall>i < 1001. rs ! i = (if i < 999 then Inr (Suc i) else Inl ERROR_OUT_OF_STRUCTURES)"
    unfolding length_numbered_paths by blast
  from run(3) have "rs ! 0 = Inr 1" "rs ! 998 = Inr 999"
    "rs ! 999 = Inl ERROR_OUT_OF_STRUCTURES" "rs ! 1000 = Inl ERROR_OUT_OF_STRUCTURES"
    by simp_all
  moreover from run(2) have "rs \<noteq> []" by auto
  ultimately show ?thesis
    using run(1,2) supplies_every_path_example CreateDxcArgsFileSystem_example [of "()"]
      distinct_numbered_paths [of 1001] not_main
    by (simp add: result_at_def)
qed

text \<open>
  The claim as stated fails: on the adapter for \<^verbatim>\<open>./main.hlsl\<close>, with 1000
  pairwise different unseen paths, the 1000th resolve (number 999 from 0) already
  fails with \<^verbatim>\<open>ERROR_OUT_OF_STRUCTURES\<close>.
\<close>

theorem thousandth_unseen_path_is_out_of_structures:
  "CreateDxcArgsFileSystem example_collaborators [0x41] ''./main.hlsl'' (Some ()) =
     Some (main_fs ()) \<and>
   result_at 998 (resolve_all example_collaborators (numbered_paths 1000) (main_fs ())) =
     Some (Inr 999) \<and>
   result_at 999 (resolve_all example_collaborators (numbered_paths 1000) (main_fs ())) =
     Some (Inl ERROR_OUT_OF_STRUCTURES)"
proof -
  have not_main: "MakeAbsoluteOrCurDirRelativeW ''./main.hlsl'' \<notin> set (numbered_paths 1000)"
    using main_not_numbered by (simp add: MakeAbsoluteOrCurDirRelativeW_main)
  from resolve_all_fresh
    [OF supplies_every_path_example CreateDxcArgsFileSystem_example
      distinct_numbered_paths not_main]
  obtain rs t where run:
    "resolve_all example_collaborators (numbered_paths 1000) (main_fs ()) = Some (rs, t)"
    "length rs = 1000"
    "\<forall>i < 1000. rs ! i = (if i < 999 then Inr (Suc i) else Inl ERROR_OUT_OF_STRUCTURES)"
    unfolding length_numbered_paths by blast
  from run(3) have "rs ! 998 = Inr 999" "rs ! 999 = Inl ERROR_OUT_OF_STRUCTURES"
    by simp_all
  with run(1,2) show ?thesis
    using CreateDxcArgsFileSystem_example [of "()"]
    by (simp add: result_at_def)
qed

subsection \<open>Caching and the include handler\<close>











subsection \<open>Invariants of the adapter\<close>

lemma extends_refl: "extends s s"
  by (simp add: extends_def)

lemma extends_trans: "extends s t \<Longrightarrow> extends t u \<Longrightarrow> extends s u"
  by (auto simp: extends_def)

lemma TryFindOrOpen_extends:
  assumes "TryFindOrOpen E p s = Some (r, t)"
  shows "extends s t \<and> (within_bounds s \<longrightarrow> within_bounds t)"
  using TryFindOrOpen_effect [OF assms]
  by (auto simp: extends_def within_bounds_def)

lemma CreateFileW_cases:
  assumes "CreateFileW E prior lpFileName s = Some (r, t)"
  shows "(t = s \<and> r = Inr OutputHandle) \<or>
         (t = s \<and> (\<exists>h. r = Inr h \<and> h \<noteq> INVALID_HANDLE_VALUE \<and>
            TryFindDirHandle prior (MakeAbsoluteOrCurDirRelativeW lpFileName) s = Some h)) \<or>
         (\<exists>i. r = Inr (IncludedFileIndexToHandle prior i) \<and>
            TryFindOrOpen E (MakeAbsoluteOrCurDirRelativeW lpFileName) s = Some (Inr i, t)) \<or>
         (\<exists>e. r = Inl e \<and>
            TryFindOrOpen E (MakeAbsoluteOrCurDirRelativeW lpFileName) s = Some (Inl e, t))"
  using assms
  by (auto simp: CreateFileW_def Let_def split: if_splits option.splits sum.splits)

lemma CreateFileW_extends:
  assumes "CreateFileW E prior lpFileName s = Some (r, t)"
  shows "extends s t \<and> (within_bounds s \<longrightarrow> within_bounds t)"
  using CreateFileW_cases [OF assms] TryFindOrOpen_extends extends_refl
  by blast

lemma GetFileAttributesW_extends:
  assumes "GetFileAttributesW E prior lpFileName s = Some (r, t)"
  shows "extends s t \<and> (within_bounds s \<longrightarrow> within_bounds t)"
proof -
  from assms have "t = s \<or>
      (\<exists>r'. TryFindOrOpen E (MakeAbsoluteOrCurDirRelativeW lpFileName) s = Some (r', t))"
    by (auto simp: GetFileAttributesW_def Let_def split: if_splits option.splits sum.splits)
  then show ?thesis
    using TryFindOrOpen_extends extends_refl by blast
qed

lemma append_search_entries_length:
  "append_search_entries E entries acc = (completed, es) \<Longrightarrow>
     prefix acc es \<and> length es \<le> length acc + length entries"
proof (induction entries arbitrary: acc)
  case Nil
  then show ?case by simp
next
  case (Cons Path entries)
  show ?case
  proof (cases "UTF8ToUTF16StringOrThrow E Path")
    case None
    with Cons.prems show ?thesis by (simp split: if_splits)
  next
    case (Some w)
    let ?acc = "if IsAbsoluteOrCurDirRelative E Path then acc @ [w] else acc @ [''./'' @ w]"
    from Some Cons.prems have "append_search_entries E entries ?acc = (completed, es)"
      by (simp split: if_splits)
    from Cons.IH [OF this] show ?thesis
      by (auto dest: append_prefixD split: if_splits)
  qed
qed

lemma SetupForCompilerInstance_extends:
  assumes "SetupForCompilerInstance E entries s = Some (r, t)"
  shows "extends s t \<and> (within_bounds s \<longrightarrow> within_bounds t)"
proof -
  from assms have empty: "m_searchEntries s = []"
    by (auto simp: SetupForCompilerInstance_def split: if_splits)
  show ?thesis
  proof (cases "length entries > MaxIncludedFiles")
    case True
    with assms empty have "t = s"
      by (simp add: SetupForCompilerInstance_def)
    then show ?thesis by (simp add: extends_refl)
  next
    case False
    obtain completed es where run: "append_search_entries E entries [] = (completed, es)"
      by (cases "append_search_entries E entries []")
    with assms empty False have t: "t = s\<lparr>m_searchEntries := es\<rparr>"
      by (cases completed) (simp_all add: SetupForCompilerInstance_def)
    from append_search_entries_length [OF run] False have "length es \<le> MaxIncludedFiles"
      by simp
    with t empty show ?thesis
      by (simp add: extends_def within_bounds_def)
  qed
qed

lemma reaches_extends:
  assumes "reaches E s t"
  shows "extends s t \<and> (within_bounds s \<longrightarrow> within_bounds t)"
  using assms
proof (induction rule: reaches.induct)
  case reaches_refl
  show ?case by (simp add: extends_refl)
next
  case (reaches_EnableDisplayIncludeProcess t)
  then show ?case
    by (simp add: extends_def within_bounds_def EnableDisplayIncludeProcess_def)
next
  case (reaches_CreateStdStreams t out err hr t')
  from reaches_CreateStdStreams.hyps(2) have
    "m_includedFiles t' = m_includedFiles t" "m_searchEntries t' = m_searchEntries t"
    by (auto simp: CreateStdStreams_def Let_def split: if_splits)
  with reaches_CreateStdStreams.IH show ?case
    by (simp add: extends_def within_bounds_def)
next
  case (reaches_SetupForCompilerInstance t entries r t')
  from SetupForCompilerInstance_extends [OF reaches_SetupForCompilerInstance.hyps(2)]
    reaches_SetupForCompilerInstance.IH
  show ?case by (blast intro: extends_trans)
next
  case (reaches_RegisterOutputStream t pName pStream hr t')
  from reaches_RegisterOutputStream.hyps(2) have
    "m_includedFiles t' = m_includedFiles t" "m_searchEntries t' = m_searchEntries t"
    by (auto simp: RegisterOutputStream_def split: if_splits)
  with reaches_RegisterOutputStream.IH show ?case
    by (simp add: extends_def within_bounds_def)
next
  case (reaches_CreateFileW t lpFileName rh t')
  from CreateFileW_extends [OF reaches_CreateFileW.hyps(2)] reaches_CreateFileW.IH
  show ?case by (blast intro: extends_trans)
next
  case (reaches_GetFileAttributesW t lpFileName ra t')
  from GetFileAttributesW_extends [OF reaches_GetFileAttributesW.hyps(2)]
    reaches_GetFileAttributesW.IH
  show ?case by (blast intro: extends_trans)
qed

lemma scan_search_dirs_match:
  "scan_search_dirs lpDir dirLen es k = Some (Some i) \<Longrightarrow> k \<le> i \<and> i - k < length es"
proof (induction es arbitrary: k)
  case Nil
  then show ?case by simp
next
  case (Cons e es)
  show ?case
  proof (cases "IsDirPrefixOrSame lpDir dirLen e")
    case None
    with Cons.prems show ?thesis by simp
  next
    case (Some b)
    show ?thesis
    proof (cases b)
      case True
      with Some Cons.prems show ?thesis by simp
    next
      case False
      with Some Cons.prems have "scan_search_dirs lpDir dirLen es (Suc k) = Some (Some i)"
        by simp
      from Cons.IH [OF this] show ?thesis by auto
    qed
  qed
qed

lemma GetKind_OutputHandle: "GetKind OutputHandle = HandleKind_value Special"
  by (simp add: OutputHandle_def DxcArgsHandle_special_def GetKind_def Bits_of_Handle_of_Bits)

text \<open>The index a handle returned by \<^verbatim>\<open>CreateFileW\<close> carries is in range.\<close>

lemma CreateFileW_handle_index:
  assumes "CreateFileW E prior lpFileName s = Some (Inr h, t)"
  shows "(IsFileKind h \<longrightarrow> (\<exists>i. GetFileIndex h = Some i \<and> i < length (m_includedFiles t))) \<and>
         (GetKind h = HandleKind_value FileDir \<longrightarrow>
            unat (Offset (Bits_of_Handle h)) < length (m_includedFiles t)) \<and>
         (GetKind h = HandleKind_value SearchDir \<longrightarrow>
            unat (Offset (Bits_of_Handle h)) < length (m_searchEntries t))"
proof -
  let ?p = "MakeAbsoluteOrCurDirRelativeW lpFileName"
  from CreateFileW_cases [OF assms]
  consider (is_output) "t = s" "h = OutputHandle"
    | (is_dir) "t = s" "TryFindDirHandle prior ?p s = Some h" "h \<noteq> INVALID_HANDLE_VALUE"
    | (is_file) i where "h = IncludedFileIndexToHandle prior i" "TryFindOrOpen E ?p s = Some (Inr i, t)"
    by auto
  then show ?thesis
  proof cases
    case is_output
    then show ?thesis
      by (simp add: IsFileKind_def GetKind_OutputHandle)
  next
    case is_dir
    from TryFindDirHandle_cases [OF is_dir(2)] is_dir(3)
    consider i where "scan_file_dirs ?p (length ?p) (m_includedFiles s) 0 = Some (Some i)"
        "h = DxcArgsHandle prior FileDir i (length ?p)"
      | i where "scan_search_dirs ?p (length ?p) (m_searchEntries s) 0 = Some (Some i)"
        "h = DxcArgsHandle prior SearchDir i (length ?p)"
      by auto
    then show ?thesis
    proof cases
      case 1
      from scan_file_dirs_match [OF 1(1)] have "i < length (m_includedFiles s)" by simp
      then have "i mod 256 < length (m_includedFiles s)"
        by (rule le_less_trans [OF mod_less_eq_dividend])
      then show ?thesis
        using 1(2) is_dir(1)
        by (simp add: IsFileKind_def GetKind_DxcArgsHandle Offset_DxcArgsHandle)
    next
      case 2
      from scan_search_dirs_match [OF 2(1)] have "i < length (m_searchEntries s)" by simp
      then have "i mod 256 < length (m_searchEntries s)"
        by (rule le_less_trans [OF mod_less_eq_dividend])
      then show ?thesis
        using 2(2) is_dir(1)
        by (simp add: IsFileKind_def GetKind_DxcArgsHandle Offset_DxcArgsHandle)
    qed
  next
    case is_file
    from scan_included_Some [OF TryFindOrOpen_index [OF is_file(2)]]
    have "i < length (m_includedFiles t)" by simp
    then have "i mod 256 < length (m_includedFiles t)"
      by (rule le_less_trans [OF mod_less_eq_dividend])
    moreover have "GetKind (IncludedFileIndexToHandle prior i) = HandleKind_value File"
      using IsFileKind_IncludedFileIndexToHandle [of prior i] by (simp add: IsFileKind_def)
    ultimately show ?thesis
      using is_file(1)
      by (simp add: GetFileIndex_IncludedFileIndexToHandle)
  qed
qed

text \<open>
  C9. In every state an adapter reaches from its construction, the registry and
  the search-path list hold at most \<^verbatim>\<open>MaxIncludedFiles\<close> (1000) entries; entry 0
  of the registry is the primary source the constructor installed; every later
  state extends both lists (a prefix is never changed); and the index carried by a
  file or directory handle that \<^verbatim>\<open>CreateFileW\<close> returns is in range of its list
  in every later state.
\<close>

theorem registry_invariants:
  assumes "CreateDxcArgsFileSystem E pSource pSourceName pHandler = Some s0"
    and "reaches E s0 s"
  shows "length (m_includedFiles s) \<le> MaxIncludedFiles \<and>
         length (m_searchEntries s) \<le> MaxIncludedFiles \<and>
         m_includedFiles s \<noteq> [] \<and>
         m_includedFiles s ! 0 = m_includedFiles s0 ! 0 \<and>
         Blob (m_includedFiles s ! 0) = pSource \<and>
         Name (m_includedFiles s ! 0) = MakeAbsoluteOrCurDirRelativeW pSourceName \<and>
         (\<forall>t. reaches E s t \<longrightarrow>
            prefix (m_includedFiles s) (m_includedFiles t) \<and>
            prefix (m_searchEntries s) (m_searchEntries t)) \<and>
         (\<forall>lpFileName h s' t.
            CreateFileW E prior lpFileName s = Some (Inr h, s') \<and> reaches E s' t \<longrightarrow>
              (IsFileKind h \<longrightarrow>
                 (\<exists>i. GetFileIndex h = Some i \<and> i < length (m_includedFiles t))) \<and>
              (GetKind h = HandleKind_value FileDir \<longrightarrow>
                 unat (Offset (Bits_of_Handle h)) < length (m_includedFiles t)) \<and>
              (GetKind h = HandleKind_value SearchDir \<longrightarrow>
                 unat (Offset (Bits_of_Handle h)) < length (m_searchEntries t)))"
proof -
  from CreateDxcArgsFileSystem_Some [OF assms(1)] obtain sourceStream where
    files0: "m_includedFiles s0 =
       [\<lparr>Blob = pSource, BlobStream = sourceStream,
         Name = MakeAbsoluteOrCurDirRelativeW pSourceName\<rparr>]"
    and search0: "m_searchEntries s0 = []"
    by auto
  have bounds0: "within_bounds s0"
    by (simp add: within_bounds_def files0 search0 MaxIncludedFiles_def)
  from reaches_extends [OF assms(2)] bounds0 have ext: "extends s0 s" and bounds: "within_bounds s"
    by simp_all
  from ext files0 obtain more where files: "m_includedFiles s =
      \<lparr>Blob = pSource, BlobStream = sourceStream,
        Name = MakeAbsoluteOrCurDirRelativeW pSourceName\<rparr> # more"
    by (auto simp: extends_def prefix_def)
  have growth: "prefix (m_includedFiles s) (m_includedFiles t) \<and>
      prefix (m_searchEntries s) (m_searchEntries t)" if "reaches E s t" for t
    using reaches_extends [OF that] by (simp add: extends_def)
  have handles:
    "(IsFileKind h \<longrightarrow> (\<exists>i. GetFileIndex h = Some i \<and> i < length (m_includedFiles t))) \<and>
     (GetKind h = HandleKind_value FileDir \<longrightarrow>
        unat (Offset (Bits_of_Handle h)) < length (m_includedFiles t)) \<and>
     (GetKind h = HandleKind_value SearchDir \<longrightarrow>
        unat (Offset (Bits_of_Handle h)) < length (m_searchEntries t))"
    if opened: "CreateFileW E prior lpFileName s = Some (Inr h, s')" and later: "reaches E s' t"
    for lpFileName h s' t
  proof -
    from reaches_extends [OF later] have
      "length (m_includedFiles s') \<le> length (m_includedFiles t)"
      "length (m_searchEntries s') \<le> length (m_searchEntries t)"
      by (auto simp: extends_def dest: prefix_length_le)
    with CreateFileW_handle_index [OF opened] show ?thesis
      by (meson less_le_trans)
  qed
  from bounds files files0 growth handles show ?thesis
    unfolding within_bounds_def by (intro conjI allI impI) (simp_all, blast+)
qed

lemma open_inc_foo:
  "CreateFileW example_collaborators prior ''./inc/foo.h'' (main_fs ()) =
     Some (Inr (IncludedFileIndexToHandle prior 1), inc_fs ())"
proof -
  have name: "MakeAbsoluteOrCurDirRelativeW ''./inc/foo.h'' = ''./inc/foo.h''"
    by (simp add: MakeAbsoluteOrCurDirRelativeW_def IsAbsoluteOrCurDirRelativeW_def wch_def
        NUL_def)
  have dir: "TryFindDirHandle prior ''./inc/foo.h'' (main_fs ()) = Some INVALID_HANDLE_VALUE"
    by (simp add: TryFindDirHandle_def main_fs_def IsDirOf_def)
  have reg: "TryFindOrOpen example_collaborators ''./inc/foo.h'' (main_fs ()) =
      Some (Inr 1, inc_fs ())"
    by (simp add: TryFindOrOpen_def example_collaborators_def main_fs_def inc_fs_def
        MaxIncludedFiles_def Let_def)
  have out: "m_pOutputStreamName (main_fs ()) = None"
    by (simp add: main_fs_def)
  show ?thesis
    by (simp add: CreateFileW_def name dir reg out)
qed

lemma open_inc_dir:
  "CreateFileW example_collaborators prior ''./inc'' (inc_fs ()) =
     Some (Inr (DxcArgsHandle prior FileDir 1 5), inc_fs ())"
proof -
  have name: "MakeAbsoluteOrCurDirRelativeW ''./inc'' = ''./inc''"
    by (simp add: MakeAbsoluteOrCurDirRelativeW_def IsAbsoluteOrCurDirRelativeW_def wch_def
        NUL_def)
  have dir: "TryFindDirHandle prior ''./inc'' (inc_fs ()) = Some (DxcArgsHandle prior FileDir 1 5)"
    by code_simp
  have out: "m_pOutputStreamName (inc_fs ()) = None"
    by (simp add: inc_fs_def main_fs_def)
  show ?thesis
    by (simp add: CreateFileW_def name dir out DxcArgsHandle_not_INVALID)
qed

theorem registry_invariants_witness:
  "CreateDxcArgsFileSystem example_collaborators [0x41] ''./main.hlsl'' (Some ()) =
     Some (main_fs ()) \<and>
   reaches example_collaborators (main_fs ()) (inc_fs ()) \<and>
   length (m_includedFiles (inc_fs ())) \<le> MaxIncludedFiles \<and>
   length (m_searchEntries (inc_fs ())) \<le> MaxIncludedFiles \<and>
   Blob (m_includedFiles (inc_fs ()) ! 0) = [0x41] \<and>
   Name (m_includedFiles (inc_fs ()) ! 0) = ''./main.hlsl'' \<and>
   CreateFileW example_collaborators stale_storage ''./inc'' (inc_fs ()) =
     Some (Inr (DxcArgsHandle stale_storage FileDir 1 5), inc_fs ()) \<and>
   GetKind (DxcArgsHandle stale_storage FileDir 1 5) = HandleKind_value FileDir \<and>
   unat (Offset (Bits_of_Handle (DxcArgsHandle stale_storage FileDir 1 5))) <
     length (m_includedFiles (inc_fs ()))"
proof -
  have ctor: "CreateDxcArgsFileSystem example_collaborators [0x41] ''./main.hlsl'' (Some ()) =
      Some (main_fs ())"
    by (rule CreateDxcArgsFileSystem_example)
  have reach: "reaches example_collaborators (main_fs ()) (inc_fs ())"
    by (rule reaches_CreateFileW [OF reaches_refl open_inc_foo])
  have later: "reaches example_collaborators (inc_fs ()) (inc_fs ())"
    by (rule reaches_refl)
  have kind: "GetKind (DxcArgsHandle stale_storage FileDir 1 5) = HandleKind_value FileDir"
    by (rule GetKind_DxcArgsHandle)
  note inv = registry_invariants [OF ctor reach, unfolded MakeAbsoluteOrCurDirRelativeW_main]
  from inv have bounds: "length (m_includedFiles (inc_fs ())) \<le> MaxIncludedFiles"
    "length (m_searchEntries (inc_fs ())) \<le> MaxIncludedFiles"
    "Blob (m_includedFiles (inc_fs ()) ! 0) = [0x41]"
    "Name (m_includedFiles (inc_fs ()) ! 0) = ''./main.hlsl''"
    by blast+
  from inv open_inc_dir later kind
  have "unat (Offset (Bits_of_Handle (DxcArgsHandle stale_storage FileDir 1 5))) <
      length (m_includedFiles (inc_fs ()))"
    by blast
  with ctor reach bounds open_inc_dir kind show ?thesis
    by blast
qed

subsection \<open>The handle codec against the registry bound\<close>

text \<open>
  C1. The registry admits indices up to 999, but \<^verbatim>\<open>Offset\<close> and \<^verbatim>\<open>Length\<close>
  are 8 bits wide. On the adapter for \<^verbatim>\<open>./main.hlsl\<close> the 256th new path is
  registered at index 256; the file handle of index 256 decodes to index 0 and,
  constructed in the same storage, is the file handle of index 0; a directory
  length of 256 is encoded as length 0. The round trip and the injectivity asked
  for below the bound of 1000 fail at these inputs, whatever the storage held.
\<close>

theorem handle_index_wraps_at_256:
  "result_at 255 (resolve_all example_collaborators (numbered_paths 256) (main_fs ())) =
     Some (Inr 256) \<and>
   DxcArgsHandle prior File 256 0 = DxcArgsHandle prior File 0 0 \<and>
   IncludedFileIndexToHandle prior 256 = IncludedFileIndexToHandle prior 0 \<and>
   GetFileIndex (IncludedFileIndexToHandle prior 256) = Some 0 \<and>
   DxcArgsHandle prior FileDir 1 256 = DxcArgsHandle prior FileDir 1 0 \<and>
   Length_of (DxcArgsHandle prior FileDir 1 256) = 0"
proof -
  have not_main: "MakeAbsoluteOrCurDirRelativeW ''./main.hlsl'' \<notin> set (numbered_paths 256)"
    using main_not_numbered by (simp add: MakeAbsoluteOrCurDirRelativeW_main)
  from resolve_all_fresh
    [OF supplies_every_path_example CreateDxcArgsFileSystem_example
      distinct_numbered_paths not_main]
  obtain rs t where run:
    "resolve_all example_collaborators (numbered_paths 256) (main_fs ()) = Some (rs, t)"
    "length rs = 256"
    "\<forall>i < 256. rs ! i = (if i < 999 then Inr (Suc i) else Inl ERROR_OUT_OF_STRUCTURES)"
    unfolding length_numbered_paths by blast
  from run(3) have "rs ! 255 = Inr 256"
    by simp
  with run(1,2) have registered:
    "result_at 255 (resolve_all example_collaborators (numbered_paths 256) (main_fs ())) =
       Some (Inr 256)"
    by (simp add: result_at_def)
  have wide: "(256 :: 8 word) = 0"
    by simp
  have wraps: "DxcArgsHandle prior File 256 0 = DxcArgsHandle prior File 0 0"
    "IncludedFileIndexToHandle prior 256 = IncludedFileIndexToHandle prior 0"
    "GetFileIndex (IncludedFileIndexToHandle prior 256) = Some 0"
    "DxcArgsHandle prior FileDir 1 256 = DxcArgsHandle prior FileDir 1 0"
    "Length_of (DxcArgsHandle prior FileDir 1 256) = 0"
    by (simp_all add: DxcArgsHandle_def IncludedFileIndexToHandle_def DxcArgsHandle_file_def
        GetFileIndex_def IsFileKind_def GetKind_def Length_of_def Bits_of_Handle_of_Bits wide)
  from registered wraps show ?thesis
    by blast
qed

subsection \<open>Calls that return\<close>

text \<open>
  The read in front of the buffer in \<^verbatim>\<open>IsDirOf\<close> needs an empty directory
  path, and the file API only passes normalised paths, which are not empty. So
  with the trace off, \<^verbatim>\<open>CreateFileW\<close> and \<^verbatim>\<open>GetFileAttributesW\<close> return on
  every path and in every state.
\<close>

lemma scan_file_dirs_defined:
  "dirLen \<noteq> 0 \<Longrightarrow> scan_file_dirs lpDir dirLen fs k \<noteq> None"
proof (induction fs arbitrary: k)
  case Nil
  then show ?case by simp
next
  case (Cons f fs)
  from IsDirOf_defined [OF Cons.prems] obtain b where
    "IsDirOf lpDir dirLen (Name f) = Some b"
    by blast
  with Cons.IH [OF Cons.prems] show ?case
    by (cases b) simp_all
qed

lemma scan_search_dirs_defined:
  "dirLen \<noteq> 0 \<Longrightarrow> scan_search_dirs lpDir dirLen es k \<noteq> None"
proof (induction es arbitrary: k)
  case Nil
  then show ?case by simp
next
  case (Cons e es)
  from IsDirOf_defined [OF Cons.prems, of lpDir e] obtain b where
    "IsDirPrefixOrSame lpDir dirLen e = Some b"
    by (cases "lpDir = e") (auto simp: IsDirPrefixOrSame_def)
  with Cons.IH [OF Cons.prems] show ?case
    by (cases b) simp_all
qed

lemma TryFindDirHandle_defined:
  assumes "lpDir \<noteq> []"
  shows "\<exists>h. TryFindDirHandle prior lpDir s = Some h"
proof -
  from assms have len: "length lpDir \<noteq> 0" by simp
  from scan_file_dirs_defined [OF len] obtain a where
    a: "scan_file_dirs lpDir (length lpDir) (m_includedFiles s) 0 = Some a"
    by blast
  from scan_search_dirs_defined [OF len] obtain b where
    b: "scan_search_dirs lpDir (length lpDir) (m_searchEntries s) 0 = Some b"
    by blast
  show ?thesis
    by (cases a; cases b) (simp_all add: TryFindDirHandle_def a b)
qed

lemma TryFindOrOpen_returns:
  assumes "\<not> m_bDisplayIncludeProcess s"
  shows "\<exists>r t. TryFindOrOpen E p s = Some (r, t)"
  using assms
  by (auto simp: TryFindOrOpen_def Let_def
      split: option.splits prod.splits load_result.splits)

lemma CreateFileW_returns:
  assumes "\<not> m_bDisplayIncludeProcess s"
  shows "\<exists>r t. CreateFileW E prior lpFileName s = Some (r, t)"
proof -
  let ?p = "MakeAbsoluteOrCurDirRelativeW lpFileName"
  from TryFindDirHandle_defined [OF MakeAbsoluteOrCurDirRelativeW_nonempty] obtain h where
    h: "TryFindDirHandle prior ?p s = Some h"
    by blast
  from TryFindOrOpen_returns [OF assms] obtain r t where
    r: "TryFindOrOpen E ?p s = Some (r, t)"
    by blast
  show ?thesis
    by (cases r) (simp_all add: CreateFileW_def Let_def h r)
qed

lemma GetFileAttributesW_returns:
  assumes "\<not> m_bDisplayIncludeProcess s"
  shows "\<exists>r t. GetFileAttributesW E prior lpFileName s = Some (r, t)"
proof -
  let ?p = "MakeAbsoluteOrCurDirRelativeW lpFileName"
  from TryFindDirHandle_defined [OF MakeAbsoluteOrCurDirRelativeW_nonempty] obtain h where
    h: "TryFindDirHandle prior ?p s = Some h"
    by blast
  from TryFindOrOpen_returns [OF assms] obtain r t where
    r: "TryFindOrOpen E ?p s = Some (r, t)"
    by blast
  show ?thesis
    by (cases r) (simp_all add: GetFileAttributesW_def Let_def h r)
qed

subsection \<open>Issued handles and file descriptors\<close>

text \<open>
  A handle that \<^verbatim>\<open>CreateFileW\<close> returns is the output handle or carries one of
  the kinds \<^verbatim>\<open>File\<close>, \<^verbatim>\<open>FileDir\<close> and \<^verbatim>\<open>SearchDir\<close>.
\<close>

lemma CreateFileW_handle_kinds:
  assumes "CreateFileW E prior lpFileName s = Some (Inr h, t)"
  shows "h = OutputHandle \<or> GetKind h = HandleKind_value File \<or>
         GetKind h = HandleKind_value FileDir \<or> GetKind h = HandleKind_value SearchDir"
proof -
  from CreateFileW_cases [OF assms]
  consider "h = OutputHandle"
    | "TryFindDirHandle prior (MakeAbsoluteOrCurDirRelativeW lpFileName) s = Some h"
      "h \<noteq> INVALID_HANDLE_VALUE"
    | i where "h = IncludedFileIndexToHandle prior i"
    by auto
  then show ?thesis
  proof cases
    case 1
    then show ?thesis by simp
  next
    case 2
    from TryFindDirHandle_cases [OF 2(1)] 2(2) show ?thesis
      by (auto simp: GetKind_DxcArgsHandle)
  next
    case 3
    then show ?thesis
      by (simp add: IncludedFileIndexToHandle_def GetKind_DxcArgsHandle_file)
  qed
qed

text \<open>
  C10. The standard-output and standard-error handles are the words 1 and 2 and
  map to the descriptors 1 and 2 and back (\<open>osfhandle_standard_handles\<close>), and
  the way through a descriptor keeps the bit-fields of every handle
  (\<open>osfhandle_keeps_Bits\<close>). But it does not give every issued handle back: a
  descriptor has 32 bits, and the bits of a handle above the bit-fields are what the
  storage of the temporary held. With \<^verbatim>\<open>./inc/foo.h\<close> registered and the
  storage holding \<open>0x7FFFFFF00000\<close>, \<^verbatim>\<open>CreateFileW\<close> returns the handle
  \<open>0x7FFFFFF20501\<close> for \<^verbatim>\<open>./inc\<close>; \<^verbatim>\<open>open_osfhandle\<close> makes it the
  descriptor \<open>0xFFF20501\<close>, and \<^verbatim>\<open>get_osfhandle\<close> makes that the handle
  \<open>0xFFFFFFFFFFF20501\<close>.
\<close>

theorem osfhandle_round_trip_changes_issued_handle:
  "CreateFileW example_collaborators stale_storage ''./inc'' (inc_fs ()) =
     Some (Inr 0x7FFFFFF20501, inc_fs ()) \<and>
   open_osfhandle 0x7FFFFFF20501 0 = 0xFFF20501 \<and>
   get_osfhandle 0xFFF20501 = 0xFFFFFFFFFFF20501 \<and>
   get_osfhandle (open_osfhandle 0x7FFFFFF20501 0) \<noteq> 0x7FFFFFF20501 \<and>
   Bits_of_Handle (get_osfhandle (open_osfhandle 0x7FFFFFF20501 0)) =
     Bits_of_Handle 0x7FFFFFF20501"
proof -
  have handle: "DxcArgsHandle stale_storage FileDir 1 5 = 0x7FFFFFF20501"
    by code_simp
  have opened: "CreateFileW example_collaborators stale_storage ''./inc'' (inc_fs ()) =
      Some (Inr 0x7FFFFFF20501, inc_fs ())"
    using open_inc_dir [of stale_storage] by (simp only: handle)
  have there: "open_osfhandle 0x7FFFFFF20501 0 = 0xFFF20501"
    by code_simp
  have again: "get_osfhandle 0xFFF20501 = 0xFFFFFFFFFFF20501"
    by code_simp
  have changed: "get_osfhandle (open_osfhandle 0x7FFFFFF20501 0) \<noteq> 0x7FFFFFF20501"
    unfolding there again by simp
  have fields: "Bits_of_Handle (get_osfhandle (open_osfhandle 0x7FFFFFF20501 0)) =
      Bits_of_Handle 0x7FFFFFF20501"
    by (rule osfhandle_keeps_Bits)
  from opened there again changed fields show ?thesis
    by blast
qed

end
